theory Spec2Isabelle
  imports Complex_Main "HOL-Library.AList"
begin

section \<open>The document model\<close>

text \<open>
  The loader in \<^verbatim>\<open>scripts/aem.js\<close> works on the browser's document. A node is an
  element (local name, attributes in source order, children) or a text node. Names and
  attribute names are the lower-case ASCII strings an HTML parser produces. Writing
  \<^verbatim>\<open>x.innerHTML = y.innerHTML\<close> serialises the children of \<open>y\<close> and parses them
  again: the children of \<open>x\<close> become fresh copies of the children of \<open>y\<close>. In a
  value model a copy is the same tree, so a list of nodes stands for markup. The children
  of a \<^verbatim>\<open>template\<close> element stand for its content, which is markup that selectors and
  text extraction do not enter.
\<close>

type_synonym attrs = "(string \<times> string) list"

datatype node = Element string attrs "node list" | Text string

datatype error = TypeError | InvalidCharacterError | SyntaxError | ErrorEvent

fun childNodes :: "node \<Rightarrow> node list" where
  "childNodes (Element tg atts cs) = cs"
| "childNodes (Text t) = []"

fun isElement :: "node \<Rightarrow> bool" where
  "isElement (Element tg atts cs) = True"
| "isElement (Text t) = False"

fun tagName :: "node \<Rightarrow> string" where
  "tagName (Element tg atts cs) = tg"
| "tagName (Text t) = []"

fun attributes :: "node \<Rightarrow> attrs" where
  "attributes (Element tg atts cs) = atts"
| "attributes (Text t) = []"

definition getAttribute :: "attrs \<Rightarrow> string \<Rightarrow> string option" where
  "getAttribute atts k = map_of atts k"

definition setAttribute :: "string \<Rightarrow> string \<Rightarrow> attrs \<Rightarrow> attrs" where
  "setAttribute k v atts = AList.update k v atts"

text \<open>
  \<^verbatim>\<open>element.children\<close>: the element children only, text nodes left out. A
  \<^verbatim>\<open>template\<close> element has none, its markup being its content.
\<close>

definition children :: "node \<Rightarrow> node list" where
  "children n = (if tagName n = ''template'' then [] else filter isElement (childNodes n))"

subsection \<open>Strings\<close>

definition ascii_lower :: "char \<Rightarrow> char" where
  "ascii_lower c =
     (case map_of (zip ''ABCDEFGHIJKLMNOPQRSTUVWXYZ'' ''abcdefghijklmnopqrstuvwxyz'') c of
        Some l \<Rightarrow> l
      | None \<Rightarrow> c)"

definition toLowerCase :: "string \<Rightarrow> string" where
  "toLowerCase s = map ascii_lower s"

definition ascii_whitespace :: "char \<Rightarrow> bool" where
  "ascii_whitespace c = (c \<in> set [CHR 0x09, CHR 0x0A, CHR 0x0C, CHR 0x0D, CHR 0x20])"

text \<open>
  \<^verbatim>\<open>s.split(sep)\<close> for a one-character separator: the pieces between separators, empty
  pieces kept, never an empty list.
\<close>

fun split_by :: "(char \<Rightarrow> bool) \<Rightarrow> string \<Rightarrow> string list" where
  "split_by P [] = [[]]"
| "split_by P (c # cs) =
     (if P c then [] # split_by P cs
      else (case split_by P cs of
              t # ts \<Rightarrow> (c # t) # ts
            | [] \<Rightarrow> [[c]]))"

definition split :: "char \<Rightarrow> string \<Rightarrow> string list" where
  "split sep s = split_by (\<lambda>c. c = sep) s"

definition endsWith :: "string \<Rightarrow> string \<Rightarrow> bool" where
  "endsWith s suf = (length suf \<le> length s \<and> drop (length s - length suf) s = suf)"

text \<open>The class list of an element: the class attribute cut at ASCII whitespace.\<close>

definition classList :: "attrs \<Rightarrow> string list" where
  "classList atts =
     (case getAttribute atts ''class'' of
        None \<Rightarrow> []
      | Some c \<Rightarrow> filter (\<lambda>t. t \<noteq> []) (split_by ascii_whitespace c))"

text \<open>A JavaScript \<^verbatim>\<open>Set\<close> of strings: insertion order, no duplicates.\<close>

definition Set_add :: "string \<Rightarrow> string list \<Rightarrow> string list" where
  "Set_add x xs = (if x \<in> set xs then xs else xs @ [x])"

section \<open>Resource discovery\<close>

text \<open>
  \<^verbatim>\<open>document.createElement(name)\<close> in an HTML document lower-cases the name and
  throws InvalidCharacterError when the name is not a valid element name. Every name
  built here starts with the letter a, and for such a name the DOM standard asks that it
  holds no ASCII whitespace, no NUL, no slash and no greater-than sign.
\<close>

definition valid_element_name :: "string \<Rightarrow> bool" where
  "valid_element_name s =
     (s \<noteq> [] \<and> (\<forall>c \<in> set s. \<not> ascii_whitespace c \<and> c \<notin> set [CHR 0x00, CHR ''/'', CHR ''>'']))"

definition createElement :: "string \<Rightarrow> error + node" where
  "createElement name =
     (if valid_element_name name then Inr (Element (toLowerCase name) [] [])
      else Inl InvalidCharacterError)"

text \<open>The loop of \<^verbatim>\<open>transformToCustomElement\<close> over the new element's children.\<close>

fun slot_item :: "node \<Rightarrow> node" where
  "slot_item (Element tg atts cs) = Element tg (setAttribute ''slot'' ''item'' atts) cs"
| "slot_item (Text t) = Text t"

text \<open>
  \<^verbatim>\<open>transformToCustomElement(block)\<close>. The tag is \<^verbatim>\<open>aem-\<close> followed by the class
  attribute, or by the tag name when the attribute is missing or empty (the operator
  \<^verbatim>\<open>||\<close>). The new element has no attribute of its own, takes a copy of the block's
  markup, and each of its element children gets \<^verbatim>\<open>slot="item"\<close>. The call
  \<^verbatim>\<open>block.parentNode.replaceChild(customElement, block)\<close> puts the result where the
  block stood: the caller below does that with the value returned here.
\<close>

definition transformToCustomElement :: "node \<Rightarrow> error + node" where
  "transformToCustomElement block =
     (case createElement
             (''aem-'' @ (case getAttribute (attributes block) ''class'' of
                            None \<Rightarrow> toLowerCase (tagName block)
                          | Some c \<Rightarrow> if c = [] then toLowerCase (tagName block) else c)) of
        Inl e \<Rightarrow> Inl e
      | Inr customElement \<Rightarrow>
          Inr (Element (tagName customElement) (attributes customElement)
                 (map slot_item (childNodes block))))"

text \<open>
  The selector \<^verbatim>\<open>header, footer, div[class]:not(.fragment)\<close> and the test on
  \<^verbatim>\<open>block.dataset.status\<close>, which reads the attribute \<^verbatim>\<open>data-status\<close>.
\<close>

definition matches_block :: "string \<Rightarrow> attrs \<Rightarrow> bool" where
  "matches_block tg atts =
     (tg = ''header'' \<or> tg = ''footer'' \<or>
      (tg = ''div'' \<and> getAttribute atts ''class'' \<noteq> None \<and> ''fragment'' \<notin> set (classList atts)))"

definition status_skipped :: "attrs \<Rightarrow> bool" where
  "status_skipped atts =
     (getAttribute atts ''data-status'' = Some ''loading'' \<or>
      getAttribute atts ''data-status'' = Some ''loaded'')"

text \<open>
  The state of one scan: the two sets, and the blocks the scan has taken out of the
  document. \<^verbatim>\<open>block.dataset.status\<close> is written on the old block, which
  \<^verbatim>\<open>replaceChild\<close> has removed from the document by the time it reads
  \<^verbatim>\<open>loaded\<close>; the element that takes its place carries no status.
\<close>

record resources =
  components :: "string list"
  templates :: "string list"
  replaced :: "node list"

definition record_tag :: "string \<Rightarrow> resources \<Rightarrow> resources" where
  "record_tag t r =
     r\<lparr>components := Set_add t (components r),
       templates := (if \<not> endsWith t ''-metadata'' then Set_add t (templates r)
                     else templates r)\<rparr>"

text \<open>
  \<^verbatim>\<open>querySelectorAll\<close> returns a static list in document order, so an element comes
  before its descendants, and \<^verbatim>\<open>forEach\<close> visits every element that matched when
  the list was made. When a block is replaced, the element that replaces it holds copies
  of the block's children; the children themselves leave the document with the block
  but stay in the list. The loop therefore still visits them: their tags are recorded
  and they are transformed inside the removed block, while their copies in the document
  are not visited by this scan. A visit changes only the visited element and what is
  below it, so each element is visited in the state it had when the list was made.

  The functions return the node that stands in the place of the visited one, and the
  state. An exception of \<^verbatim>\<open>createElement\<close> ends the loop and the function.
\<close>

fun forEach_block :: "node \<Rightarrow> resources \<Rightarrow> error + (node \<times> resources)"
  and forEach_blocks :: "node list \<Rightarrow> resources \<Rightarrow> error + (node list \<times> resources)" where
  "forEach_block (Text t) r = Inr (Text t, r)"
| "forEach_block (Element tg atts cs) r =
     (if tg = ''template'' then Inr (Element tg atts cs, r)
      else if matches_block tg atts \<and> \<not> status_skipped atts then
        (case transformToCustomElement (Element tg (setAttribute ''data-status'' ''loading'' atts) cs) of
           Inl e \<Rightarrow> Inl e
         | Inr customElement \<Rightarrow>
             (case forEach_blocks cs (record_tag (toLowerCase (tagName customElement)) r) of
                Inl e \<Rightarrow> Inl e
              | Inr (cs', r') \<Rightarrow>
                  Inr (customElement,
                       r'\<lparr>replaced :=
                            replaced r' @ [Element tg (setAttribute ''data-status'' ''loaded'' atts) cs']\<rparr>)))
      else
        (case forEach_blocks cs r of
           Inl e \<Rightarrow> Inl e
         | Inr (cs', r') \<Rightarrow> Inr (Element tg atts cs', r')))"
| "forEach_blocks [] r = Inr ([], r)"
| "forEach_blocks (n # ns) r =
     (case forEach_block n r of
        Inl e \<Rightarrow> Inl e
      | Inr (n', r') \<Rightarrow>
          (case forEach_blocks ns r' of
             Inl e \<Rightarrow> Inl e
           | Inr (ns', r'') \<Rightarrow> Inr (n' # ns', r'')))"

text \<open>\<^verbatim>\<open>getBlockResources()\<close> on the document whose root element is given.\<close>

definition getBlockResources :: "node \<Rightarrow> error + (node \<times> resources)" where
  "getBlockResources document =
     forEach_block document \<lparr>components = [], templates = [], replaced = []\<rparr>"

section \<open>Selectors and positions\<close>

text \<open>
  A position is the list of child indices that leads from a node down to one of its
  descendants. A selector is modelled by what it means for one element: a test on the tag
  of its parent, its own tag and its attributes. That covers the selectors of the
  source, which look at an element and at most its parent.

  \<^verbatim>\<open>querySelector\<close> returns the first match in document order. From the document it
  may return the root; from an element it looks at the descendants only.
\<close>

type_synonym path = "nat list"

type_synonym selector = "string \<Rightarrow> string \<Rightarrow> attrs \<Rightarrow> bool"

fun select_node :: "selector \<Rightarrow> string \<Rightarrow> node \<Rightarrow> path option"
  and select_nodes :: "selector \<Rightarrow> string \<Rightarrow> nat \<Rightarrow> node list \<Rightarrow> path option" where
  "select_node sel parent (Text t) = None"
| "select_node sel parent (Element tg atts cs) =
     (if sel parent tg atts then Some []
      else if tg = ''template'' then None
      else select_nodes sel tg 0 cs)"
| "select_nodes sel parent i [] = None"
| "select_nodes sel parent i (n # ns) =
     (case select_node sel parent n of
        Some p \<Rightarrow> Some (i # p)
      | None \<Rightarrow> select_nodes sel parent (Suc i) ns)"

fun select_all_node :: "selector \<Rightarrow> string \<Rightarrow> node \<Rightarrow> path list"
  and select_all_nodes :: "selector \<Rightarrow> string \<Rightarrow> nat \<Rightarrow> node list \<Rightarrow> path list" where
  "select_all_node sel parent (Text t) = []"
| "select_all_node sel parent (Element tg atts cs) =
     (if sel parent tg atts then [[]] else []) @
     (if tg = ''template'' then [] else select_all_nodes sel tg 0 cs)"
| "select_all_nodes sel parent i [] = []"
| "select_all_nodes sel parent i (n # ns) =
     map (\<lambda>p. i # p) (select_all_node sel parent n) @ select_all_nodes sel parent (Suc i) ns"

definition document_querySelectorAll :: "selector \<Rightarrow> node \<Rightarrow> path list" where
  "document_querySelectorAll sel document = select_all_node sel [] document"


definition document_querySelector :: "selector \<Rightarrow> node \<Rightarrow> path option" where
  "document_querySelector sel document = select_node sel [] document"

definition element_querySelector :: "selector \<Rightarrow> node \<Rightarrow> path option" where
  "element_querySelector sel element = select_nodes sel (tagName element) 0 (childNodes element)"

fun node_at :: "node \<Rightarrow> path \<Rightarrow> node option" where
  "node_at n [] = Some n"
| "node_at n (i # p) =
     (if i < length (childNodes n) then node_at (childNodes n ! i) p else None)"

fun replace_at :: "path \<Rightarrow> node \<Rightarrow> node \<Rightarrow> node" where
  "replace_at [] new n = new"
| "replace_at (i # p) new (Element tg atts cs) =
     (if i < length cs then Element tg atts (cs[i := replace_at p new (cs ! i)])
      else Element tg atts cs)"
| "replace_at (i # p) new (Text t) = Text t"

text \<open>\<^verbatim>\<open>node.remove()\<close> for the node at a position below a list of siblings.\<close>

fun remove_at :: "path \<Rightarrow> node list \<Rightarrow> node list" where
  "remove_at [] ns = ns"
| "remove_at [i] ns = take i ns @ drop (Suc i) ns"
| "remove_at (i # j # p) ns =
     (if i < length ns then
        ns[i := (case ns ! i of
                   Element tg atts cs \<Rightarrow> Element tg atts (remove_at (j # p) cs)
                 | Text t \<Rightarrow> Text t)]
      else ns)"

text \<open>
  Document order. \<open>precedes p q\<close>: the node at \<open>p\<close> comes before the node at \<open>q\<close>,
  which is the case as well when it is an ancestor of it. This is the bit
  \<^verbatim>\<open>DOCUMENT_POSITION_PRECEDING\<close> of \<^verbatim>\<open>q.compareDocumentPosition(p)\<close>.
\<close>

fun precedes :: "path \<Rightarrow> path \<Rightarrow> bool" where
  "precedes [] [] = False"
| "precedes [] (j # q) = True"
| "precedes (i # p) [] = False"
| "precedes (i # p) (j # q) = (i < j \<or> (i = j \<and> precedes p q))"

definition is_prefix :: "path \<Rightarrow> path \<Rightarrow> bool" where
  "is_prefix q p = (take (length q) p = q)"

text \<open>
  Where the node at \<open>p\<close> stands once the node at \<open>q\<close> is removed, for \<open>p\<close> not
  below \<open>q\<close>: a later sibling of the removed node, and what is below one, moves up by one.
\<close>

fun shift_path :: "path \<Rightarrow> path \<Rightarrow> path" where
  "shift_path [] p = p"
| "shift_path (i # q) [] = []"
| "shift_path [i] (j # p) = (if i < j then (j - 1) # p else j # p)"
| "shift_path (i # k # q) (j # p) = (if i = j then j # shift_path (k # q) p else j # p)"

section \<open>Hero promotion\<close>

definition sel_main :: selector where
  "sel_main parent tg atts = (tg = ''main'')"

definition sel_h1 :: selector where
  "sel_h1 parent tg atts = (tg = ''h1'')"

definition sel_p_picture :: selector where
  "sel_p_picture parent tg atts = (parent = ''p'' \<and> tg = ''picture'')"

text \<open>
  \<^verbatim>\<open>buildHeroBlock()\<close>. Without a \<^verbatim>\<open>main\<close> element the call
  \<^verbatim>\<open>main.querySelector\<close> throws TypeError. The two queries are made from
  \<^verbatim>\<open>main\<close>, so \<^verbatim>\<open>main h1\<close> is the first \<^verbatim>\<open>h1\<close> below it and
  \<^verbatim>\<open>main p > picture\<close> the first \<^verbatim>\<open>picture\<close> below it whose parent is a
  \<^verbatim>\<open>p\<close>.
\<close>

text \<open>The condition of the \<^verbatim>\<open>if\<close>: the positions of the picture and of the heading.\<close>

definition hero_candidate :: "node \<Rightarrow> (path \<times> path) option" where
  "hero_candidate main =
     (case element_querySelector sel_h1 main of
        None \<Rightarrow> None
      | Some ph \<Rightarrow>
          (case element_querySelector sel_p_picture main of
             None \<Rightarrow> None
           | Some pp \<Rightarrow> if precedes pp ph then Some (pp, ph) else None))"

text \<open>
  What is left of the children of \<^verbatim>\<open>main\<close> after
  \<^verbatim>\<open>picture.parentElement.remove()\<close> and \<^verbatim>\<open>h1.remove()\<close>. The two calls name
  nodes, not positions: the heading is gone with the paragraph when it stood inside it,
  and otherwise it is removed where it stands after the paragraph has left.
\<close>

definition without_originals :: "node \<Rightarrow> path \<Rightarrow> path \<Rightarrow> node list" where
  "without_originals main pp ph =
     (let q = butlast pp;
          without_p = remove_at q (childNodes main)
      in if is_prefix q ph then without_p else remove_at (shift_path q ph) without_p)"

text \<open>The body of the \<^verbatim>\<open>if\<close>: \<^verbatim>\<open>main\<close> as it is afterwards.\<close>

definition promote :: "node \<Rightarrow> path \<Rightarrow> path \<Rightarrow> node" where
  "promote main pp ph =
     (case (node_at main pp, node_at main ph) of
        (Some picture, Some h1) \<Rightarrow>
          Element (tagName main) (attributes main)
            (Element ''div'' [(''class'', ''hero'')] [picture, h1] # without_originals main pp ph)
      | _ \<Rightarrow> main)"

definition buildHeroBlock :: "node \<Rightarrow> error + node" where
  "buildHeroBlock document =
     (case document_querySelector sel_main document of
        None \<Rightarrow> Inl TypeError
      | Some pm \<Rightarrow>
          (case node_at document pm of
             None \<Rightarrow> Inl TypeError
           | Some main \<Rightarrow>
               (case hero_candidate main of
                  None \<Rightarrow> Inr document
                | Some (pp, ph) \<Rightarrow> Inr (replace_at pm (promote main pp ph) document))))"

section \<open>The component base class\<close>

text \<open>
  \<^verbatim>\<open>this.values\<close> is an array of elements in list mode and a \<^verbatim>\<open>Map\<close> from text to
  markup in mapped mode. A \<^verbatim>\<open>Map\<close> keeps its keys in the order of their first
  insertion, and \<^verbatim>\<open>set\<close> on a key it holds overwrites the value in place.
\<close>

datatype block_values = Positional "node list" | Mapped "(string \<times> node list) list"

fun Array_push :: "node \<Rightarrow> block_values \<Rightarrow> error + block_values" where
  "Array_push x (Positional xs) = Inr (Positional (xs @ [x]))"
| "Array_push x (Mapped m) = Inl TypeError"

fun Map_set :: "string \<Rightarrow> node list \<Rightarrow> block_values \<Rightarrow> error + block_values" where
  "Map_set k v (Mapped m) = Inr (Mapped (AList.update k v m))"
| "Map_set k v (Positional xs) = Inl TypeError"

text \<open>
  \<^verbatim>\<open>textContent\<close>: the text nodes below an element, in document order.
\<close>

fun textContent :: "node \<Rightarrow> string" where
  "textContent (Text t) = t"
| "textContent (Element tg atts cs) = (if tg = ''template'' then [] else concat (map textContent cs))"

text \<open>
  \<^verbatim>\<open>innerText\<close> is the text as the page shows it. For an element that is rendered the
  browser computes it from the layout: white space is collapsed and trimmed, hidden parts
  are left out, the style sheets have their say. For an element that is not rendered it
  is the \<^verbatim>\<open>textContent\<close>. The document model holds no layout, so the getter is a
  parameter of the functions that call it: whatever it returns, they go on with that
  string.
\<close>

record block =
  self :: node
  values_of :: block_values
  shadowRoot :: "node list"

text \<open>
  The loop over \<^verbatim>\<open>this.querySelectorAll('[slot="item"]')\<close>: a static list again, of
  every descendant that carries \<^verbatim>\<open>slot="item"\<close>, in document order. In mapped mode
  \<^verbatim>\<open>const [key, value] = element.children\<close> leaves \<^verbatim>\<open>value\<close> or both undefined
  when the element has fewer than two element children, and reading
  \<^verbatim>\<open>key.innerText\<close> or \<^verbatim>\<open>value.innerHTML\<close> then throws TypeError before
  \<^verbatim>\<open>set\<close> is called. An item below an item is in the list as well: it leaves the
  document when the outer item's markup is replaced and is still visited afterwards, in
  the state it had; what stays in the document below the outer item is the copy of the
  value's markup.

  The functions carry the index \<open>i\<close> of the next item of the list, the second argument
  of the callback of \<^verbatim>\<open>forEach\<close>. \<open>innerText i key\<close> is what \<^verbatim>\<open>key.innerText\<close>
  returns in the callback for item \<open>i\<close>; the callback reads it twice with nothing
  changed in between.
\<close>

fun forEach_slot ::
    "(nat \<Rightarrow> node \<Rightarrow> string) \<Rightarrow> bool \<Rightarrow> node \<Rightarrow> nat \<Rightarrow> block_values \<Rightarrow>
       error + (node \<times> nat \<times> block_values)"
  and forEach_slots ::
    "(nat \<Rightarrow> node \<Rightarrow> string) \<Rightarrow> bool \<Rightarrow> node list \<Rightarrow> nat \<Rightarrow> block_values \<Rightarrow>
       error + (node list \<times> nat \<times> block_values)" where
  "forEach_slot innerText mapValues (Text t) i vs = Inr (Text t, i, vs)"
| "forEach_slot innerText mapValues (Element tg atts cs) i vs =
     (if getAttribute atts ''slot'' = Some ''item'' then
        (if mapValues then
           (case children (Element tg atts cs) of
              key # value # others \<Rightarrow>
                (case Map_set (innerText i key) (childNodes value) vs of
                   Inl e \<Rightarrow> Inl e
                 | Inr vs' \<Rightarrow>
                     (case forEach_slots innerText mapValues cs (Suc i) vs' of
                        Inl e \<Rightarrow> Inl e
                      | Inr (cs', i', vs'') \<Rightarrow>
                          Inr (Element tg (setAttribute ''slot'' (innerText i key) atts) (childNodes value),
                               i', vs'')))
            | _ \<Rightarrow> Inl TypeError)
         else
           (case Array_push (Element tg atts cs) vs of
              Inl e \<Rightarrow> Inl e
            | Inr vs' \<Rightarrow>
                (if tg = ''template'' then Inr (Element tg atts cs, Suc i, vs')
                 else
                   (case forEach_slots innerText mapValues cs (Suc i) vs' of
                      Inl e \<Rightarrow> Inl e
                    | Inr (cs', i', vs'') \<Rightarrow> Inr (Element tg atts cs', i', vs'')))))
      else if tg = ''template'' then Inr (Element tg atts cs, i, vs)
      else
        (case forEach_slots innerText mapValues cs i vs of
           Inl e \<Rightarrow> Inl e
         | Inr (cs', i', vs') \<Rightarrow> Inr (Element tg atts cs', i', vs')))"
| "forEach_slots innerText mapValues [] i vs = Inr ([], i, vs)"
| "forEach_slots innerText mapValues (n # ns) i vs =
     (case forEach_slot innerText mapValues n i vs of
        Inl e \<Rightarrow> Inl e
      | Inr (n', i', vs') \<Rightarrow>
          (case forEach_slots innerText mapValues ns i' vs' of
             Inl e \<Rightarrow> Inl e
           | Inr (ns', i'', vs'') \<Rightarrow> Inr (n' # ns', i'', vs'')))"

definition sel_id :: "string \<Rightarrow> selector" where
  "sel_id i parent tg atts = (getAttribute atts ''id'' = Some i)"

text \<open>
  \<^verbatim>\<open>document.getElementById(id)\<close> and \<^verbatim>\<open>template.content.cloneNode(true)\<close>: an
  element with that identifier which is no \<^verbatim>\<open>template\<close> has no \<^verbatim>\<open>content\<close>,
  and the call on \<^verbatim>\<open>undefined\<close> throws TypeError.
\<close>

definition template_content :: "node \<Rightarrow> string \<Rightarrow> error + node list" where
  "template_content document i =
     (case document_querySelector (sel_id i) document of
        None \<Rightarrow> Inr []
      | Some p \<Rightarrow>
          (case node_at document p of
             Some (Element tg atts cs) \<Rightarrow> if tg = ''template'' then Inr cs else Inl TypeError
           | _ \<Rightarrow> Inl TypeError))"

text \<open>
  The constructor of \<^verbatim>\<open>Block\<close>, for the element \<open>this\<close> of the document, with
  \<^verbatim>\<open>options.mapValues\<close> as a truth value and the getter \<^verbatim>\<open>innerText\<close> as the
  browser computes it during this construction. The result holds the element as the
  constructor leaves it. The mutation observer is created and not started: it has no
  part in what is built here.
\<close>

definition Block_constructor ::
    "(nat \<Rightarrow> node \<Rightarrow> string) \<Rightarrow> bool \<Rightarrow> node \<Rightarrow> node \<Rightarrow> error + block" where
  "Block_constructor innerText mapValues document this_element =
     (case template_content document (toLowerCase (tagName this_element)) of
        Inl e \<Rightarrow> Inl e
      | Inr content \<Rightarrow>
          (case forEach_slots innerText mapValues (childNodes this_element) 0
                  (if mapValues then Mapped [] else Positional []) of
             Inl e \<Rightarrow> Inl e
           | Inr (cs', n, vs) \<Rightarrow>
               Inr \<lparr>self = Element (tagName this_element) (attributes this_element) cs',
                    values_of = vs,
                    shadowRoot = content\<rparr>))"

section \<open>Promises, the platform and the page\<close>

text \<open>
  A promise is described by the state it reaches once nothing is left to run:
  fulfilled with a value, rejected with a reason (none for a bare \<^verbatim>\<open>reject()\<close>), or
  still pending, which it then stays for ever.
\<close>

datatype 'a promise = Pending | Fulfilled 'a | Rejected "error option"

fun pending :: "'a promise \<Rightarrow> bool" where
  "pending Pending = True"
| "pending (Fulfilled v) = False"
| "pending (Rejected e) = False"

text \<open>
  What the browser and the network answer. \<^verbatim>\<open>fetch\<close> fails at the network level or
  gives a response with its \<^verbatim>\<open>ok\<close> flag and the text of its body, if the body can be
  read. A dynamic \<^verbatim>\<open>import\<close> fails with an error or gives a module, whose default
  export is a class, named here by a string, or is missing. A style sheet fires
  \<^verbatim>\<open>load\<close>, \<^verbatim>\<open>error\<close> or nothing. \<open>parses_url\<close> says whether
  \<^verbatim>\<open>new URL(s, window.location.origin)\<close> accepts \<open>s\<close>, \<open>parseHTML\<close> is the HTML
  parser behind the setter of \<^verbatim>\<open>innerHTML\<close>, and \<open>definable name c\<close> says whether
  \<^verbatim>\<open>customElements.define\<close> accepts the name as a custom element name and \<open>c\<close> as a
  constructor. \<open>innerText_of doc p\<close> is what the getter \<^verbatim>\<open>innerText\<close> returns for the
  element at position \<open>p\<close> of the document \<open>doc\<close>, and \<open>parse_selector s\<close> is what
  the browser's selector parser makes of the text \<open>s\<close>: a syntax error or the test the
  selector stands for. Addresses are the strings the source builds, relative to the page.
\<close>

datatype fetch_result = Network_failure | Response bool "string option"

datatype import_result = Import_failed error | Module "string option"

datatype load_event = Load | Error | No_event

record platform =
  parses_url :: "string \<Rightarrow> bool"
  fetch :: "string \<Rightarrow> fetch_result"
  import_module :: "string \<Rightarrow> import_result"
  stylesheet :: "string \<Rightarrow> load_event"
  parseHTML :: "string \<Rightarrow> node list"
  definable :: "string \<Rightarrow> string \<Rightarrow> bool"
  innerText_of :: "node \<Rightarrow> path \<Rightarrow> string"
  parse_selector :: "string \<Rightarrow> error + selector"

text \<open>
  What the page is made of, as far as the loader reads and writes it: the document, the
  registry of custom elements, and the effects in the order they happen.
\<close>

datatype event =
    Fetch string
  | Import string
  | Console_warn string
  | Console_error string
  | Define string string
  | Body_loaded

record world =
  document :: node
  registry :: "(string \<times> string) list"
  events :: "event list"

definition emit :: "event \<Rightarrow> world \<Rightarrow> world" where
  "emit e w = w\<lparr>events := events w @ [e]\<rparr>"

fun run_all :: "('a \<Rightarrow> world \<Rightarrow> 'b \<times> world) \<Rightarrow> 'a list \<Rightarrow> world \<Rightarrow> 'b list \<times> world" where
  "run_all f [] w = ([], w)"
| "run_all f (x # xs) w =
     (case f x w of
        (y, w1) \<Rightarrow> (case run_all f xs w1 of (ys, w2) \<Rightarrow> (y # ys, w2)))"

subsection \<open>The page's body and head\<close>

fun child_index :: "string \<Rightarrow> nat \<Rightarrow> node list \<Rightarrow> nat option" where
  "child_index tg i [] = None"
| "child_index tg i (n # ns) =
     (if isElement n \<and> tagName n = tg then Some i else child_index tg (Suc i) ns)"

definition document_body :: "node \<Rightarrow> path option" where
  "document_body doc =
     (case child_index ''body'' 0 (childNodes doc) of None \<Rightarrow> None | Some i \<Rightarrow> Some [i])"

definition document_head :: "node \<Rightarrow> path option" where
  "document_head doc =
     (case child_index ''head'' 0 (childNodes doc) of None \<Rightarrow> None | Some i \<Rightarrow> Some [i])"

definition append_child :: "path \<Rightarrow> node \<Rightarrow> node \<Rightarrow> node" where
  "append_child p new doc =
     (case node_at doc p of
        Some (Element tg atts cs) \<Rightarrow> replace_at p (Element tg atts (cs @ [new])) doc
      | _ \<Rightarrow> doc)"

definition set_innerHTML :: "path \<Rightarrow> node list \<Rightarrow> node \<Rightarrow> node" where
  "set_innerHTML p markup doc =
     (case node_at doc p of
        Some (Element tg atts cs) \<Rightarrow> replace_at p (Element tg atts markup) doc
      | _ \<Rightarrow> doc)"

definition set_attribute_at :: "path \<Rightarrow> string \<Rightarrow> string \<Rightarrow> node \<Rightarrow> node" where
  "set_attribute_at p k v doc =
     (case node_at doc p of
        Some (Element tg atts cs) \<Rightarrow> replace_at p (Element tg (setAttribute k v atts) cs) doc
      | _ \<Rightarrow> doc)"

subsection \<open>The loaders\<close>

definition js_whitespace :: "char \<Rightarrow> bool" where
  "js_whitespace c = (c \<in> set [CHR 0x09, CHR 0x0A, CHR 0x0B, CHR 0x0C, CHR 0x0D, CHR 0x20])"

definition trim :: "string \<Rightarrow> string" where
  "trim s = rev (dropWhile js_whitespace (rev (dropWhile js_whitespace s)))"

definition template_href :: "string \<Rightarrow> string \<Rightarrow> string" where
  "template_href codeBasePath blockName =
     codeBasePath @ ''/blocks/'' @ blockName @ ''/'' @ blockName @ ''.html''"

definition block_href :: "string \<Rightarrow> string \<Rightarrow> string" where
  "block_href codeBasePath blockName =
     codeBasePath @ ''/blocks/'' @ blockName @ ''/'' @ blockName @ ''.js''"

text \<open>\<^verbatim>\<open>href.split('/').pop().split('.').shift()\<close>\<close>

definition template_id :: "string \<Rightarrow> string" where
  "template_id href = hd (split CHR ''.'' (last (split CHR ''/'' href)))"

text \<open>
  The source splices a string into an attribute selector,
  \<^verbatim>\<open>template[id="${id}"]\<close> and \<^verbatim>\<open>head > link[href="${href}"]\<close>. Between the
  quotes the string is read as a CSS string: a quote ends it, a backslash starts an
  escape, a line break (line feed, carriage return, form feed) makes it a bad string, and
  NUL is replaced. A string with none of these characters is read as itself, and the
  selector then tests the attribute for equality with it. For any other string the
  selector is whatever its text spells to the browser's parser, or a syntax error.
\<close>

definition css_string_plain :: "string \<Rightarrow> bool" where
  "css_string_plain s =
     (\<forall>c \<in> set s. c \<notin> set [CHR 0x22, CHR 0x5C, CHR 0x0A, CHR 0x0C, CHR 0x0D, CHR 0x00])"

definition sel_template_id :: "string \<Rightarrow> selector" where
  "sel_template_id i parent tg atts = (tg = ''template'' \<and> getAttribute atts ''id'' = Some i)"

definition template_selector :: "platform \<Rightarrow> string \<Rightarrow> error + selector" where
  "template_selector pf i =
     (if css_string_plain i then Inr (sel_template_id i)
      else parse_selector pf (''template[id='' @ [CHR 0x22] @ i @ [CHR 0x22] @ '']''))"

fun set_id :: "string \<Rightarrow> node \<Rightarrow> node" where
  "set_id i (Element tg atts cs) = Element tg (setAttribute ''id'' i atts) cs"
| "set_id i (Text t) = Text t"

text \<open>
  \<^verbatim>\<open>loadTemplate(blockName)\<close>. A syntax error of \<^verbatim>\<open>querySelector\<close> is thrown
  inside the executor of the promise, which rejects the promise with it. The promise of
  \<^verbatim>\<open>fetch\<close> has a \<^verbatim>\<open>then\<close> and no \<^verbatim>\<open>catch\<close>: when the request fails at the
  network level neither \<^verbatim>\<open>resolve\<close> nor \<^verbatim>\<open>reject\<close> is ever called. After a
  response that is \<^verbatim>\<open>ok\<close>, \<^verbatim>\<open>finally(resolve)\<close> resolves whatever happened before
  it.
\<close>

definition loadTemplate :: "platform \<Rightarrow> string \<Rightarrow> string \<Rightarrow> world \<Rightarrow> unit promise \<times> world" where
  "loadTemplate pf codeBasePath blockName w =
     (let href = template_href codeBasePath blockName;
          i = template_id href
      in case template_selector pf i of
           Inl e \<Rightarrow> (Rejected (Some e), w)
         | Inr sel \<Rightarrow>
             (if document_querySelector sel (document w) \<noteq> None then (Fulfilled (), w)
              else
                (let w1 = emit (Fetch href) w
                 in case fetch pf href of
                      Network_failure \<Rightarrow> (Pending, w1)
                    | Response ok body \<Rightarrow>
                        (if ok then
                           (case body of
                              None \<Rightarrow> (Fulfilled (), w1)
                            | Some text \<Rightarrow>
                                (case parseHTML pf (trim text) of
                                   [] \<Rightarrow> (Fulfilled (), w1)
                                 | html # rest \<Rightarrow>
                                     (case document_body (document w1) of
                                        None \<Rightarrow> (Fulfilled (), w1)
                                      | Some pb \<Rightarrow>
                                          (Fulfilled (),
                                           w1\<lparr>document := append_child pb (set_id i html) (document w1)\<rparr>))))
                         else (Rejected None, w1)))))"

text \<open>
  \<^verbatim>\<open>loadBlock(blockName)\<close>. The \<^verbatim>\<open>then\<close> callback resolves when
  \<^verbatim>\<open>mod.default\<close> is there and does nothing otherwise; the \<^verbatim>\<open>catch\<close> callback
  runs when the import fails.
\<close>

definition loadBlock ::
  "platform \<Rightarrow> string \<Rightarrow> string \<Rightarrow> world \<Rightarrow> (string \<times> string) promise \<times> world" where
  "loadBlock pf codeBasePath blockName w =
     (let href = block_href codeBasePath blockName;
          w1 = emit (Import href) w
      in case import_module pf href of
           Module (Some className) \<Rightarrow> (Fulfilled (blockName, className), w1)
         | Module None \<Rightarrow> (Pending, w1)
         | Import_failed error \<Rightarrow>
             (Rejected (Some error),
              emit (Console_warn (''Failed to load module for '' @ blockName)) w1))"

definition sel_head_link :: "string \<Rightarrow> selector" where
  "sel_head_link href parent tg atts =
     (parent = ''head'' \<and> tg = ''link'' \<and> getAttribute atts ''href'' = Some href)"

definition head_link_selector :: "platform \<Rightarrow> string \<Rightarrow> error + selector" where
  "head_link_selector pf href =
     (if css_string_plain href then Inr (sel_head_link href)
      else parse_selector pf (''head > link[href='' @ [CHR 0x22] @ href @ [CHR 0x22] @ '']''))"

text \<open>
  \<^verbatim>\<open>loadCSS(href)\<close>. A new link element is appended to the head and the promise
  follows its \<^verbatim>\<open>load\<close> or \<^verbatim>\<open>error\<close> event; without a head the executor throws
  and the promise is rejected, as it is by a syntax error of \<^verbatim>\<open>querySelector\<close>.
\<close>

definition loadCSS :: "platform \<Rightarrow> string \<Rightarrow> world \<Rightarrow> unit promise \<times> world" where
  "loadCSS pf href w =
     (case head_link_selector pf href of
        Inl e \<Rightarrow> (Rejected (Some e), w)
      | Inr sel \<Rightarrow>
          (if document_querySelector sel (document w) = None then
             (let link = Element ''link'' [(''rel'', ''stylesheet''), (''href'', href)] []
              in case document_head (document w) of
                   None \<Rightarrow> (Rejected (Some TypeError), w)
                 | Some ph \<Rightarrow>
                     (case stylesheet pf href of
                        Load \<Rightarrow> Fulfilled ()
                      | Error \<Rightarrow> Rejected (Some ErrorEvent)
                      | No_event \<Rightarrow> Pending,
                      w\<lparr>document := append_child ph link (document w)\<rparr>))
           else (Fulfilled (), w)))"

subsection \<open>Fragment preloading\<close>

definition sel_div_div :: selector where
  "sel_div_div parent tg atts = (parent = ''div'' \<and> tg = ''div'')"

definition sel_fragment :: selector where
  "sel_fragment parent tg atts = (''fragment'' \<in> set (classList atts))"

definition fragment_url :: "string \<Rightarrow> string" where
  "fragment_url path = path @ ''.plain.html''"

text \<open>
  \<^verbatim>\<open>preloadFragment(element)\<close> runs in two parts. Up to its first \<^verbatim>\<open>await\<close> it
  finds the slot, reads the path with \<^verbatim>\<open>innerText\<close>, builds the address and calls
  \<^verbatim>\<open>fetch\<close>; a missing slot or an address that does not parse throws there,
  outside the \<^verbatim>\<open>try\<close>, and the promise is rejected. The rest runs when the request
  has settled. After the warning for a response that is not \<^verbatim>\<open>ok\<close> there is no
  \<^verbatim>\<open>return\<close> and no \<^verbatim>\<open>else\<close>: the assignment to \<^verbatim>\<open>slot.innerHTML\<close> is
  reached for every response whose body can be read.
\<close>

datatype started = Not_started error | Fetching path string

definition preloadFragment_start :: "platform \<Rightarrow> path \<Rightarrow> world \<Rightarrow> started \<times> world" where
  "preloadFragment_start pf element w =
     (case node_at (document w) element of
        None \<Rightarrow> (Not_started TypeError, w)
      | Some el \<Rightarrow>
          (case element_querySelector sel_div_div el of
             None \<Rightarrow> (Not_started TypeError, w)
           | Some ps \<Rightarrow>
               (case node_at el ps of
                  None \<Rightarrow> (Not_started TypeError, w)
                | Some slot \<Rightarrow>
                    (let path = innerText_of pf (document w) (element @ ps)
                     in if parses_url pf (fragment_url path)
                        then (Fetching (element @ ps) path, emit (Fetch (fragment_url path)) w)
                        else (Not_started TypeError, w)))))"

definition preloadFragment_resume :: "platform \<Rightarrow> started \<Rightarrow> world \<Rightarrow> unit promise \<times> world" where
  "preloadFragment_resume pf s w =
     (case s of
        Not_started e \<Rightarrow> (Rejected (Some e), w)
      | Fetching slot path \<Rightarrow>
          (case fetch pf (fragment_url path) of
             Network_failure \<Rightarrow>
               (Fulfilled (), emit (Console_error (''Loading fragment '' @ path @ '' failed:'')) w)
           | Response ok body \<Rightarrow>
               (let w1 = (if \<not> ok then emit (Console_warn (''failed to preload fragment '' @ path)) w
                          else w)
                in case body of
                     None \<Rightarrow>
                       (Fulfilled (),
                        emit (Console_error (''Loading fragment '' @ path @ '' failed:'')) w1)
                   | Some text \<Rightarrow>
                       (Fulfilled (),
                        w1\<lparr>document := set_innerHTML slot (parseHTML pf text) (document w1)\<rparr>))))"

definition preloadFragment :: "platform \<Rightarrow> path \<Rightarrow> world \<Rightarrow> unit promise \<times> world" where
  "preloadFragment pf element w =
     (case preloadFragment_start pf element w of
        (s, w1) \<Rightarrow> preloadFragment_resume pf s w1)"

text \<open>
  \<^verbatim>\<open>Promise.allSettled([...document.querySelectorAll('.fragment')].map(preloadFragment))\<close>:
  every call runs to its first \<^verbatim>\<open>await\<close> before any response is handled. The
  responses are handled here from the last placeholder to the first, one of the orders
  the event loop allows: a slot is never below the slot of a later placeholder, so every
  slot is still at its position when its turn comes. A rejected call does not stop the
  others.
\<close>

definition preloadFragments :: "platform \<Rightarrow> world \<Rightarrow> world" where
  "preloadFragments pf w =
     (case run_all (preloadFragment_start pf) (document_querySelectorAll sel_fragment (document w)) w of
        (started, w1) \<Rightarrow> fold (\<lambda>s w2. snd (preloadFragment_resume pf s w2)) (rev started) w1)"

subsection \<open>Initialization\<close>

text \<open>
  \<^verbatim>\<open>customElements.define\<close> inside the \<^verbatim>\<open>async\<close> callback of
  \<^verbatim>\<open>loadedComponents.value.forEach\<close>. The callback has no \<^verbatim>\<open>await\<close>, so it runs
  to its end when it is called, and an exception of \<^verbatim>\<open>define\<close> rejects the
  callback's own promise, which nobody reads. \<^verbatim>\<open>define\<close> throws for a name or a
  constructor the platform does not accept and for a constructor that is registered
  already.
\<close>

definition define_element :: "platform \<Rightarrow> (string \<times> string) promise \<Rightarrow> world \<Rightarrow> world" where
  "define_element pf settled w =
     (case settled of
        Fulfilled (name, className) \<Rightarrow>
          (if map_of (registry w) name = None then
             (if definable pf name className \<and> className \<notin> snd ` set (registry w)
              then emit (Define name className) (w\<lparr>registry := registry w @ [(name, className)]\<rparr>)
              else w)
           else w)
      | _ \<Rightarrow> w)"

text \<open>
  How \<^verbatim>\<open>initialize()\<close> ends: with an exception (its promise is rejected), never
  (one of the awaited promises stays pending), or by reaching the line that marks the
  body as loaded.
\<close>

datatype outcome = Throws error | Hangs world | Completes world

text \<open>
  \<^verbatim>\<open>initialize()\<close>, from \<^verbatim>\<open>buildHeroBlock()\<close> to
  \<^verbatim>\<open>document.body.dataset.status = 'loaded'\<close>. The code base path is the value
  \<^verbatim>\<open>setup()\<close> leaves in \<^verbatim>\<open>window.hlx.codeBasePath\<close>, and the document is the one
  \<^verbatim>\<open>loadEagerImages()\<close> leaves. Both calls of \<^verbatim>\<open>map\<close> run before any load
  settles: the templates are requested first, then the modules. What follows the marking
  of the body (the fonts, the first telemetry checkpoint, the event listeners) throws
  nothing and waits for nothing.
\<close>

definition initialize :: "platform \<Rightarrow> string \<Rightarrow> world \<Rightarrow> outcome" where
  "initialize pf codeBasePath w =
     (case buildHeroBlock (document w) of
        Inl e \<Rightarrow> Throws e
      | Inr d1 \<Rightarrow>
          (let w1 = preloadFragments pf (w\<lparr>document := d1\<rparr>)
           in case getBlockResources (document w1) of
                Inl e \<Rightarrow> Throws e
              | Inr (d2, r) \<Rightarrow>
                  (case run_all (loadTemplate pf codeBasePath) (templates r) (w1\<lparr>document := d2\<rparr>) of
                     (loadedTemplates, w2) \<Rightarrow>
                       (case run_all (loadBlock pf codeBasePath) (components r) w2 of
                          (loadedComponents, w3) \<Rightarrow>
                            (if list_ex pending loadedTemplates \<or> list_ex pending loadedComponents
                             then Hangs w3
                             else
                               (let w4 = fold (define_element pf) loadedComponents w3
                                in case document_body (document w4) of
                                     None \<Rightarrow> Throws TypeError
                                   | Some pb \<Rightarrow>
                                       Completes
                                         (emit Body_loaded
                                            (w4\<lparr>document :=
                                                  set_attribute_at pb ''data-status'' ''loaded''
                                                    (document w4)\<rparr>))))))))"

section \<open>Telemetry\<close>

text \<open>
  The values a caller can pass to \<^verbatim>\<open>sampleRUM\<close>. An object is the list of the
  properties a read finds on it, in insertion order, with distinct names; an array is the
  list of its items. A function is given by what a call of it as \<^verbatim>\<open>toJSON\<close> does:
  it throws or it returns a value. \<open>JNotFinite\<close> is a number that is \<^verbatim>\<open>NaN\<close> or
  infinite. \<open>JCyclic\<close> stands, inside an object or an array, for a reference back to an
  object or array that contains the place: values are trees here, and this is the one
  thing a tree cannot hold. The object that \<^verbatim>\<open>sendPing\<close> serialises is a fresh one
  with copies of the properties of \<^verbatim>\<open>data\<close>; data that holds itself under a name is
  therefore written with its own value under that name, and \<open>JCyclic\<close> where that value
  comes back to it. Accessor properties, proxies and wrapper objects have no place in
  this type.
\<close>

datatype jsval =
    JUndefined
  | JNull
  | JBool bool
  | JNum rat
  | JNotFinite
  | JStr string
  | JBigInt int
  | JSymbol
  | JFun "error + jsval"
  | JObj "(string \<times> jsval) list"
  | JArr "jsval list"
  | JCyclic

datatype json =
    Json_null
  | Json_bool bool
  | Json_num rat
  | Json_str string
  | Json_obj "(string \<times> json) list"
  | Json_arr "json list"

text \<open>
  \<^verbatim>\<open>JSON.stringify(value, properties)\<close> with an array of names as second argument,
  after the standard's \<^verbatim>\<open>SerializeJSONProperty\<close>, \<^verbatim>\<open>SerializeJSONObject\<close> and
  \<^verbatim>\<open>SerializeJSONArray\<close>. A value that is an object with a callable \<^verbatim>\<open>toJSON\<close> is
  replaced by what the call returns, at the top as in every nested place, before the list
  of names is looked at. A BigInt throws TypeError, and so does an object or array that is
  on the stack of the serialisation when it is reached again. Of every object, nested
  ones as well, only the properties the array names are written, in the order of the
  array; a property whose value is \<^verbatim>\<open>undefined\<close>, a symbol or a function is left
  out, and in an array such a value is written as \<^verbatim>\<open>null\<close>. The result is the text
  (here the JSON value it spells), \<^verbatim>\<open>undefined\<close>, or an exception.
\<close>

fun toJSON :: "jsval \<Rightarrow> (error + jsval) option" where
  "toJSON (JObj members) =
     (case map_of members ''toJSON'' of Some (JFun call) \<Rightarrow> Some call | _ \<Rightarrow> None)"
| "toJSON v = None"

function SerializeJSONProperty :: "string list \<Rightarrow> jsval \<Rightarrow> error + json option"
  and SerializeJSONValue :: "string list \<Rightarrow> jsval \<Rightarrow> error + json option"
  and SerializeJSONObject :: "string list \<Rightarrow> string list \<Rightarrow> (string \<times> jsval) list \<Rightarrow> error + (string \<times> json) list"
  and SerializeJSONArray :: "string list \<Rightarrow> jsval list \<Rightarrow> error + json list" where
  "SerializeJSONProperty props v =
     (case toJSON v of
        None \<Rightarrow> SerializeJSONValue props v
      | Some (Inl e) \<Rightarrow> Inl e
      | Some (Inr u) \<Rightarrow> SerializeJSONValue props u)"
| "SerializeJSONValue props JUndefined = Inr None"
| "SerializeJSONValue props JSymbol = Inr None"
| "SerializeJSONValue props (JFun call) = Inr None"
| "SerializeJSONValue props JNull = Inr (Some Json_null)"
| "SerializeJSONValue props (JBool b) = Inr (Some (Json_bool b))"
| "SerializeJSONValue props (JNum n) = Inr (Some (Json_num n))"
| "SerializeJSONValue props JNotFinite = Inr (Some Json_null)"
| "SerializeJSONValue props (JStr s) = Inr (Some (Json_str s))"
| "SerializeJSONValue props (JBigInt n) = Inl TypeError"
| "SerializeJSONValue props JCyclic = Inl TypeError"
| "SerializeJSONValue props (JObj members) =
     (case SerializeJSONObject props props members of
        Inl e \<Rightarrow> Inl e
      | Inr written \<Rightarrow> Inr (Some (Json_obj written)))"
| "SerializeJSONValue props (JArr items) =
     (case SerializeJSONArray props items of
        Inl e \<Rightarrow> Inl e
      | Inr written \<Rightarrow> Inr (Some (Json_arr written)))"
| "SerializeJSONObject props [] members = Inr []"
| "SerializeJSONObject props (k # ks) members =
     (case map_of members k of
        None \<Rightarrow> SerializeJSONObject props ks members
      | Some v \<Rightarrow>
          (case SerializeJSONProperty props v of
             Inl e \<Rightarrow> Inl e
           | Inr None \<Rightarrow> SerializeJSONObject props ks members
           | Inr (Some j) \<Rightarrow>
               (case SerializeJSONObject props ks members of
                  Inl e \<Rightarrow> Inl e
                | Inr written \<Rightarrow> Inr ((k, j) # written))))"
| "SerializeJSONArray props [] = Inr []"
| "SerializeJSONArray props (v # items) =
     (case SerializeJSONProperty props v of
        Inl e \<Rightarrow> Inl e
      | Inr r \<Rightarrow>
          (case SerializeJSONArray props items of
             Inl e \<Rightarrow> Inl e
           | Inr written \<Rightarrow> Inr ((case r of None \<Rightarrow> Json_null | Some j \<Rightarrow> j) # written)))"
  by pat_completeness auto
termination
proof -
  have member: "size v < Suc (size_list (size_prod (\<lambda>x. 0) size) members)"
    if "map_of members k = Some v" for members :: "(string \<times> jsval) list" and k v
    using that by (induction members) (auto split: if_splits)
  have returned: "size u < size v" if "toJSON v = Some (Inr u)" for u v
    using that by (cases v) (auto split: option.splits jsval.splits dest!: member)
  show ?thesis
    by (relation "measures [\<lambda>x. case x of Inl (Inl (p, v)) \<Rightarrow> 2 * size v | Inl (Inr (p, v)) \<Rightarrow> 2 * size v
                                 | Inr (Inl (p, ks, ms)) \<Rightarrow> 2 * size (JObj ms) - 1
                                 | Inr (Inr (p, vs)) \<Rightarrow> 2 * size (JArr vs) - 1,
                            \<lambda>x. case x of Inl (Inl (p, v)) \<Rightarrow> 1 | Inl (Inr (p, v)) \<Rightarrow> 0
                                 | Inr (Inl (p, ks, ms)) \<Rightarrow> length ks
                                 | Inr (Inr (p, vs)) \<Rightarrow> 0]")
       (auto dest!: member returned)
qed

text \<open>The array of names in the source has no name twice, so it is its own list of keys.\<close>

definition JSON_stringify :: "jsval \<Rightarrow> string list \<Rightarrow> error + json option" where
  "JSON_stringify v props = SerializeJSONProperty props v"

text \<open>
  An object literal with a spread, \<^verbatim>\<open>{ a, b, ...data }\<close>: the properties of
  \<^verbatim>\<open>data\<close> are written over the ones before them.
\<close>

definition spread :: "(string \<times> jsval) list \<Rightarrow> (string \<times> jsval) list \<Rightarrow> (string \<times> jsval) list" where
  "spread obj data = foldl (\<lambda>ob (k, v). AList.update k v ob) obj data"

definition knownProperties :: "string list" where
  "knownProperties =
     [''weight'', ''id'', ''referer'', ''checkpoint'', ''t'', ''source'', ''target'', ''cwv'',
      ''CLS'', ''FID'', ''LCP'', ''INP'']"

text \<open>
  The session in \<^verbatim>\<open>window.hlx.rum\<close>. The sanitizer is looked up once, when the session
  is made, under the name in \<^verbatim>\<open>window.hlx.RUM_MASK_URL\<close> or under \<^verbatim>\<open>path\<close>; a
  name that the table does not know leaves \<^verbatim>\<open>sanitizeURL\<close> undefined. The table
  is an object literal, and a mask that names something every object inherits
  (\<^verbatim>\<open>toString\<close> and the like) finds that instead; such a mask is not followed
  here, \<^verbatim>\<open>setup()\<close> sets \<^verbatim>\<open>full\<close>.
\<close>

datatype sanitizer = Full | Origin | Path

record session =
  rum_weight :: nat
  rum_id :: string
  rum_random :: rat
  rum_isSelected :: bool
  rum_firstReadTime :: int
  rum_sanitizeURL :: "sanitizer option"

definition urlSanitizers :: "string \<Rightarrow> sanitizer option" where
  "urlSanitizers name =
     (if name = ''full'' then Some Full
      else if name = ''origin'' then Some Origin
      else if name = ''path'' then Some Path
      else None)"

text \<open>
  What one call reads from the page: the value of the query parameter \<^verbatim>\<open>rum\<close>, the
  address, the results of the calls of \<^verbatim>\<open>Math.random\<close> by their number, and the clock
  when the session is made and when the ping is sent. The draws are exact rationals: with
  weight 1 the comparison \<^verbatim>\<open>random * weight < 1\<close> does not round.
\<close>

record rum_env =
  search_rum :: "string option"
  location_href :: string
  location_origin :: string
  math_random :: "nat \<Rightarrow> rat"
  read_time :: int
  ping_time :: int

text \<open>
  What the calls leave behind: the session, the mask, the queue of deferred calls, the
  data that the entries of \<^verbatim>\<open>sampleRUM.cases\<close> hold once the object is made, the
  beacons sent, the scripts added to the head, the debug lines, and how often
  \<^verbatim>\<open>Math.random\<close> has been called. No
  handler is registered through \<^verbatim>\<open>sampleRUM.on\<close>, \<^verbatim>\<open>sampleRUM.always.on\<close> or
  \<^verbatim>\<open>sampleRUM.drain\<close>: this repository registers none.
\<close>

record rum_state =
  hlx_rum :: "session option"
  RUM_MASK_URL :: "string option"
  deferred :: "(string \<times> (string \<times> jsval) list) list"
  cases_data :: "(string \<times> jsval) list option"
  beacons :: "(string \<times> json option) list"
  head_scripts :: "string list"
  debug_lines :: "(jsval \<times> (string \<times> jsval) list) list"
  random_calls :: nat

definition alphanumerics :: string where
  "alphanumerics = ''0123456789ABCDEFGHIJKLMNOPQRSTUVWXYZabcdefghijklmnopqrstuvwxyz''"

text \<open>
  The identifier: of the characters with codes 48 to 122 the digits and letters, each
  kept when its own draw times 75 is above 70.
\<close>

definition make_id :: "(nat \<Rightarrow> rat) \<Rightarrow> nat \<Rightarrow> string" where
  "make_id draw n =
     map fst (filter (\<lambda>(c, i). draw (n + i) * 75 > 70) (zip alphanumerics [0..<length alphanumerics]))"

definition make_session :: "rum_env \<Rightarrow> rum_state \<Rightarrow> session" where
  "make_session env st =
     (let weight = (if search_rum env = Some ''on'' then 1 else 100);
          random = math_random env (random_calls st + length alphanumerics)
      in \<lparr>rum_weight = weight,
          rum_id = make_id (math_random env) (random_calls st),
          rum_random = random,
          rum_isSelected = (random * of_nat weight < 1),
          rum_firstReadTime = read_time env,
          rum_sanitizeURL =
            urlSanitizers (case RUM_MASK_URL st of
                             None \<Rightarrow> ''path''
                           | Some m \<Rightarrow> if m = [] then ''path'' else m)\<rparr>)"

definition sanitize :: "rum_env \<Rightarrow> sanitizer \<Rightarrow> string" where
  "sanitize env f =
     (case f of
        Full \<Rightarrow> location_href env
      | Origin \<Rightarrow> location_origin env
      | Path \<Rightarrow> takeWhile (\<lambda>c. c \<noteq> CHR ''?'') (location_href env))"

text \<open>A number in a template string: its decimal digits.\<close>

function nat_to_string :: "nat \<Rightarrow> string" where
  "nat_to_string n =
     (if n < 10 then [''0123456789'' ! n]
      else nat_to_string (n div 10) @ [''0123456789'' ! (n mod 10)])"
  by pat_completeness auto
termination
  by (relation "measure (\<lambda>n. n)") auto

declare nat_to_string.simps [simp del]

text \<open>
  \<^verbatim>\<open>sendPing\<close>. The call of \<^verbatim>\<open>sanitizeURL\<close> throws TypeError when the session has
  none, and \<^verbatim>\<open>JSON.stringify\<close> may throw; either exception leaves \<^verbatim>\<open>sendPing\<close>
  before the beacon and is caught by the \<^verbatim>\<open>try\<close> of \<^verbatim>\<open>sampleRUM\<close>. When
  \<^verbatim>\<open>JSON.stringify\<close> returns \<^verbatim>\<open>undefined\<close> the beacon is sent without a body.
  What is recorded as a beacon is the call of \<^verbatim>\<open>navigator.sendBeacon\<close>, which
  queues the request for this address and returns.
\<close>

definition sendPing :: "rum_env \<Rightarrow> session \<Rightarrow> jsval \<Rightarrow> (string \<times> jsval) list \<Rightarrow> rum_state \<Rightarrow> error + rum_state" where
  "sendPing env s checkpoint data st =
     (case rum_sanitizeURL s of
        None \<Rightarrow> Inl TypeError
      | Some f \<Rightarrow>
          (case JSON_stringify
                  (JObj (spread
                           [(''weight'', JNum (of_nat (rum_weight s))),
                            (''id'', JStr (rum_id s)),
                            (''referer'', JStr (sanitize env f)),
                            (''checkpoint'', checkpoint),
                            (''t'', JNum (of_int (ping_time env - rum_firstReadTime s)))]
                           data))
                  knownProperties of
             Inl e \<Rightarrow> Inl e
           | Inr body \<Rightarrow>
               (let url = ''https://rum.hlx.page/.rum/'' @ nat_to_string (rum_weight s)
                in Inr (st\<lparr>beacons := beacons st @ [(url, body)],
                           debug_lines := debug_lines st @ [(checkpoint, data)]\<rparr>))))"

text \<open>
  The two entries of \<^verbatim>\<open>sampleRUM.cases\<close>. The object is made by the first call that
  gets there, and its entry \<^verbatim>\<open>cwv\<close> is a closure over the \<^verbatim>\<open>data\<close> of that call.
  \<^verbatim>\<open>sampleRUM.cwv\<close> is the stub that \<^verbatim>\<open>defer('cwv')\<close> has installed: it queues
  the call.
\<close>

definition run_case :: "jsval \<Rightarrow> rum_state \<Rightarrow> rum_state" where
  "run_case checkpoint st =
     (if checkpoint = JStr ''cwv'' then
        (case cases_data st of
           None \<Rightarrow> st
         | Some data \<Rightarrow> st\<lparr>deferred := deferred st @ [(''cwv'', data)]\<rparr>)
      else if checkpoint = JStr ''lazy'' then
        st\<lparr>head_scripts :=
             head_scripts st @ [''https://rum.hlx.page/.rum/@adobe/helix-rum-enhancer@^1/src/index.js'']\<rparr>
      else st)"

text \<open>
  \<^verbatim>\<open>sampleRUM(checkpoint, data)\<close>. Everything from the session on is inside
  \<^verbatim>\<open>try\<close>, and the \<^verbatim>\<open>catch\<close> is empty: what was written before an exception
  stays written.
\<close>

definition sampleRUM :: "rum_env \<Rightarrow> jsval \<Rightarrow> (string \<times> jsval) list \<Rightarrow> rum_state \<Rightarrow> rum_state" where
  "sampleRUM env checkpoint data st =
     (let st1 = (case hlx_rum st of
                   None \<Rightarrow> st\<lparr>hlx_rum := Some (make_session env st),
                              random_calls := random_calls st + length alphanumerics + 1\<rparr>
                 | Some s \<Rightarrow> st)
      in case hlx_rum st1 of
           None \<Rightarrow> st1
         | Some s \<Rightarrow>
             (if rum_isSelected s then
                (let st2 = (case cases_data st1 of
                              None \<Rightarrow> st1\<lparr>cases_data := Some data\<rparr>
                            | Some made \<Rightarrow> st1)
                 in case sendPing env s checkpoint data st2 of
                      Inl e \<Rightarrow> st2
                    | Inr st3 \<Rightarrow> run_case checkpoint st3)
              else st1))"

section \<open>Descriptions used in the statements\<close>

text \<open>
  The list \<^verbatim>\<open>this.querySelectorAll('[slot="item"]')\<close> as nodes: every descendant
  with \<^verbatim>\<open>slot="item"\<close>, in document order.
\<close>

fun items_of :: "node \<Rightarrow> node list"
  and items_of_list :: "node list \<Rightarrow> node list" where
  "items_of (Text t) = []"
| "items_of (Element tg atts cs) =
     (if getAttribute atts ''slot'' = Some ''item'' then [Element tg atts cs] else []) @
     (if tg = ''template'' then [] else items_of_list cs)"
| "items_of_list [] = []"
| "items_of_list (n # ns) = items_of n @ items_of_list ns"








text \<open>
  \<open>has_block n\<close>: the scan finds a block to transform in \<open>n\<close>, an element that
  matches the selector and is not marked. \<open>nested_block n\<close>: one such block has
  another one below it.
\<close>

fun has_block :: "node \<Rightarrow> bool"
  and has_blocks :: "node list \<Rightarrow> bool" where
  "has_block (Text t) = False"
| "has_block (Element tg atts cs) =
     (tg \<noteq> ''template'' \<and> ((matches_block tg atts \<and> \<not> status_skipped atts) \<or> has_blocks cs))"
| "has_blocks [] = False"
| "has_blocks (n # ns) = (has_block n \<or> has_blocks ns)"

fun nested_block :: "node \<Rightarrow> bool"
  and nested_blocks :: "node list \<Rightarrow> bool" where
  "nested_block (Text t) = False"
| "nested_block (Element tg atts cs) =
     (tg \<noteq> ''template'' \<and>
      (if matches_block tg atts \<and> \<not> status_skipped atts then has_blocks cs else nested_blocks cs))"
| "nested_blocks [] = False"
| "nested_blocks (n # ns) = (nested_block n \<or> nested_blocks ns)"

text \<open>
  What \<^verbatim>\<open>JSON.stringify\<close> leaves out of an object, and the values it serialises
  without an exception and without calling into them: no BigInt, no reference back to an
  enclosing object, and no object with a method \<^verbatim>\<open>toJSON\<close>, at any depth.
\<close>

fun callable :: "jsval \<Rightarrow> bool" where
  "callable (JFun call) = True"
| "callable v = False"


fun plain :: "jsval \<Rightarrow> bool"
  and plain_members :: "(string \<times> jsval) list \<Rightarrow> bool"
  and plain_items :: "jsval list \<Rightarrow> bool" where
  "plain (JBigInt n) = False"
| "plain JCyclic = False"
| "plain (JObj members) = plain_members members"
| "plain (JArr items) = plain_items items"
| "plain v = True"
| "plain_members [] = True"
| "plain_members ((k, v) # members) =
     (plain v \<and> \<not> (k = ''toJSON'' \<and> callable v) \<and> plain_members members)"
| "plain_items [] = True"
| "plain_items (v # items) = (plain v \<and> plain_items items)"


definition only_requests :: "event list \<Rightarrow> bool" where
  "only_requests es =
     (\<forall>e \<in> set es. (\<exists>u. e = Fetch u) \<or> (\<exists>u. e = Import u) \<or> (\<exists>m. e = Console_warn m))"

section \<open>Example pages\<close>

text \<open>A block with a block inside it, before a scan, after one scan and after two.\<close>

definition nested_page :: node where
  "nested_page =
     Element ''html'' []
       [Element ''head'' [] [],
        Element ''body'' []
          [Element ''main'' []
             [Element ''div'' [(''class'', ''columns'')]
                [Element ''div'' [(''class'', ''card'')] [Text ''x'']]]]]"

definition nested_page_scanned :: node where
  "nested_page_scanned =
     Element ''html'' []
       [Element ''head'' [] [],
        Element ''body'' []
          [Element ''main'' []
             [Element ''aem-columns'' []
                [Element ''div'' [(''class'', ''card''), (''slot'', ''item'')] [Text ''x'']]]]]"

definition nested_page_rescanned :: node where
  "nested_page_rescanned =
     Element ''html'' []
       [Element ''head'' [] [],
        Element ''body'' []
          [Element ''main'' []
             [Element ''aem-columns'' [] [Element ''aem-card'' [] [Text ''x'']]]]]"

text \<open>A page with a metadata block, a marked block and a placeholder.\<close>

definition metadata_page :: node where
  "metadata_page =
     Element ''html'' []
       [Element ''head'' [] [],
        Element ''body'' []
          [Element ''header'' [] [],
           Element ''main'' []
             [Element ''div'' []
                [Element ''div'' [(''class'', ''Cards'')] [Element ''div'' [] [Text ''one'']],
                 Element ''div'' [(''class'', ''section-metadata'')]
                   [Element ''div'' [] [Element ''div'' [] [Text ''Style''], Element ''div'' [] [Text ''dark'']]],
                 Element ''div'' [(''class'', ''cards''), (''data-status'', ''loaded'')] [],
                 Element ''div'' [(''class'', ''fragment'')] [Element ''div'' [] [Element ''div'' [] [Text ''/nav'']]]]]]]"


definition rendered :: "nat \<Rightarrow> node \<Rightarrow> string" where
  "rendered i key = trim (textContent key)"


definition template_page :: node where
  "template_page =
     Element ''html'' []
       [Element ''head'' [] [Element ''link'' [(''rel'', ''stylesheet''), (''href'', ''/styles/fonts.css'')] []],
        Element ''body'' []
          [Element ''main'' [] [],
           Element ''template'' [(''id'', ''aem-section-metadata'')] [Element ''slot'' [] []]]]"


text \<open>
  Pages that hold a template whose identifier has a quote in it, \<^verbatim>\<open>a"b\<close>, and one
  whose identifier has a backslash, \<^verbatim>\<open>a\b\<close>, and a head link whose address has a
  quote.
\<close>

definition quote_name :: string where
  "quote_name = [CHR ''a'', CHR 0x22, CHR ''b'']"

definition backslash_name :: string where
  "backslash_name = [CHR ''a'', CHR 0x5C, CHR ''b'']"

definition quote_page :: node where
  "quote_page =
     Element ''html'' []
       [Element ''head'' [] [Element ''link'' [(''rel'', ''stylesheet''), (''href'', quote_name)] []],
        Element ''body'' []
          [Element ''template'' [(''id'', quote_name)] [],
           Element ''template'' [(''id'', backslash_name)] []]]"

text \<open>
  A page with a picture in a paragraph before the heading, the same page after
  promotion, and a page with the heading first.
\<close>

definition hero_main :: node where
  "hero_main =
     Element ''main'' []
       [Element ''div'' []
          [Element ''p'' [] [Element ''picture'' [] [Element ''img'' [(''src'', ''a.png'')] []]],
           Element ''h1'' [] [Text ''Title''],
           Element ''p'' [] [Text ''text'']]]"

definition hero_page :: node where
  "hero_page = Element ''html'' [] [Element ''head'' [] [], Element ''body'' [] [hero_main]]"

definition hero_page_promoted :: node where
  "hero_page_promoted =
     Element ''html'' []
       [Element ''head'' [] [],
        Element ''body'' []
          [Element ''main'' []
             [Element ''div'' [(''class'', ''hero'')]
                [Element ''picture'' [] [Element ''img'' [(''src'', ''a.png'')] []],
                 Element ''h1'' [] [Text ''Title'']],
              Element ''div'' [] [Element ''p'' [] [Text ''text'']]]]]"

definition inverted_main :: node where
  "inverted_main =
     Element ''main'' []
       [Element ''div'' []
          [Element ''h1'' [] [Text ''Title''],
           Element ''p'' [] [Element ''picture'' [] [Element ''img'' [(''src'', ''a.png'')] []]]]]"

definition inverted_page :: node where
  "inverted_page = Element ''html'' [] [Element ''head'' [] [], Element ''body'' [] [inverted_main]]"

text \<open>
  A page whose first picture holds, inside an \<^verbatim>\<open>object\<close>, a paragraph with a
  picture of its own, after one promotion and after two.
\<close>

definition nested_picture_page :: node where
  "nested_picture_page =
     Element ''html'' []
       [Element ''head'' [] [],
        Element ''body'' []
          [Element ''main'' []
             [Element ''p'' []
                [Element ''picture'' []
                   [Element ''object'' []
                      [Element ''p'' [] [Element ''picture'' [] [Element ''img'' [(''src'', ''b.png'')] []]]]]],
              Element ''h1'' [] [Text ''Title'']]]]"

definition nested_picture_page_promoted :: node where
  "nested_picture_page_promoted =
     Element ''html'' []
       [Element ''head'' [] [],
        Element ''body'' []
          [Element ''main'' []
             [Element ''div'' [(''class'', ''hero'')]
                [Element ''picture'' []
                   [Element ''object'' []
                      [Element ''p'' [] [Element ''picture'' [] [Element ''img'' [(''src'', ''b.png'')] []]]]],
                 Element ''h1'' [] [Text ''Title'']]]]]"

definition nested_picture_page_promoted_twice :: node where
  "nested_picture_page_promoted_twice =
     Element ''html'' []
       [Element ''head'' [] [],
        Element ''body'' []
          [Element ''main'' []
             [Element ''div'' [(''class'', ''hero'')]
                [Element ''picture'' [] [Element ''img'' [(''src'', ''b.png'')] []],
                 Element ''h1'' [] [Text ''Title'']],
              Element ''div'' [(''class'', ''hero'')]
                [Element ''picture'' [] [Element ''object'' [] []]]]]]"

text \<open>
  A page with a placeholder for \<^verbatim>\<open>/fragments/footer\<close>, and a platform on which that
  fragment is answered with status 404 and the body \<^verbatim>\<open>Not Found\<close>, the module of
  \<^verbatim>\<open>aem-hero\<close> has a default export, the module of \<^verbatim>\<open>aem-cards\<close> loads without
  one, and no other module loads. Its parser knows an empty template and plain text, and
  it shows every element as its text without the white space around it. Its selector
  parser is asked for two selectors here. In \<^verbatim>\<open>template[id="a\b"]\<close> the backslash and
  the letter b are the escape of the character with code 11, so the selector tests the
  identifier against the letter a followed by that character. In
  \<^verbatim>\<open>template[id="a"b"]\<close> and \<^verbatim>\<open>head > link[href="a"b"]\<close> the second quote ends
  the string and what follows is no selector: a syntax error.
\<close>

definition fragment_page :: node where
  "fragment_page =
     Element ''html'' []
       [Element ''head'' [] [],
        Element ''body'' []
          [Element ''main'' []
             [Element ''div'' []
                [Element ''div'' [(''class'', ''fragment'')]
                   [Element ''div'' [] [Element ''div'' [] [Text ''/fragments/footer'']]]]]]]"

definition fragment_page_after :: node where
  "fragment_page_after =
     Element ''html'' []
       [Element ''head'' [] [],
        Element ''body'' []
          [Element ''main'' []
             [Element ''div'' []
                [Element ''div'' [(''class'', ''fragment'')]
                   [Element ''div'' [] [Text ''Not Found'']]]]]]"

definition example_platform :: platform where
  "example_platform =
     \<lparr>parses_url = (\<lambda>s. True),
      fetch = (\<lambda>u. if u = ''/fragments/footer.plain.html'' then Response False (Some ''Not Found'')
                   else if u = ''/blocks/aem-hero/aem-hero.html''
                   then Response True (Some ''<template></template>'')
                   else Response False None),
      import_module = (\<lambda>u. if u = ''/blocks/aem-hero/aem-hero.js'' then Module (Some ''Hero'')
                           else if u = ''/blocks/aem-cards/aem-cards.js'' then Module None
                           else Import_failed TypeError),
      stylesheet = (\<lambda>u. Load),
      parseHTML = (\<lambda>s. if s = ''<template></template>'' then [Element ''template'' [] []]
                       else if s = [] then [] else [Text s]),
      definable = (\<lambda>name c. True),
      innerText_of = (\<lambda>doc p. case node_at doc p of None \<Rightarrow> [] | Some n \<Rightarrow> trim (textContent n)),
      parse_selector =
        (\<lambda>s. if s = ''template[id='' @ [CHR 0x22] @ backslash_name @ [CHR 0x22] @ '']''
              then Inr (sel_template_id [CHR ''a'', CHR 0x0B])
              else Inl SyntaxError)\<rparr>"

definition page_world :: "node \<Rightarrow> world" where
  "page_world doc = \<lparr>document = doc, registry = [], events = []\<rparr>"





text \<open>
  A first telemetry call on a page opened with \<^verbatim>\<open>?rum=on\<close>, after \<^verbatim>\<open>setup()\<close> has
  set the mask to \<^verbatim>\<open>full\<close>.
\<close>

definition rum_on :: rum_env where
  "rum_on =
     \<lparr>search_rum = Some ''on'',
      location_href = ''https://example.test/page?rum=on'',
      location_origin = ''https://example.test'',
      math_random = (\<lambda>i. if i = 3 \<or> i = 40 then 19 / 20 else 1 / 2),
      read_time = 1000,
      ping_time = 1002\<rparr>"

definition first_call :: rum_state where
  "first_call =
     \<lparr>hlx_rum = None, RUM_MASK_URL = Some ''full'', deferred = [], cases_data = None,
      beacons = [], head_scripts = [], debug_lines = [], random_calls = 0\<rparr>"

section \<open>Properties of resource discovery\<close>

definition templates_follow_components :: "resources \<Rightarrow> bool" where
  "templates_follow_components r =
     (templates r = filter (\<lambda>t. \<not> endsWith t ''-metadata'') (components r))"

lemma filter_Set_add:
  "filter P (Set_add x xs) = (if P x then Set_add x (filter P xs) else filter P xs)"
  by (auto simp: Set_add_def)

lemma record_tag_follows:
  "templates_follow_components r \<Longrightarrow> templates_follow_components (record_tag t r)"
  by (simp add: templates_follow_components_def record_tag_def filter_Set_add)

lemma replaced_follows [simp]:
  "templates_follow_components (r\<lparr>replaced := x\<rparr>) = templates_follow_components r"
  by (simp add: templates_follow_components_def)

lemma forEach_block_follows:
  "forEach_block n r = Inr (n', r') \<Longrightarrow> templates_follow_components r
     \<Longrightarrow> templates_follow_components r'"
  and forEach_blocks_follows:
  "forEach_blocks ns r = Inr (ns', r') \<Longrightarrow> templates_follow_components r
     \<Longrightarrow> templates_follow_components r'"
proof (induction n r and ns r arbitrary: n' r' and ns' r' rule: forEach_block_forEach_blocks.induct)
  case (1 t r)
  then show ?case by simp
next
  case (2 tg atts cs r)
  then show ?case
    by (auto split: sum.splits if_splits prod.splits simp: record_tag_follows)
next
  case (3 r)
  then show ?case by simp
next
  case (4 n ns r)
  then show ?case
    by (auto split: sum.splits prod.splits)
qed

text \<open>
  Claim C10. Whenever \<^verbatim>\<open>getBlockResources\<close> returns, the templates it returns are
  among the components it returns, and they are exactly the components whose tag does
  not end with \<^verbatim>\<open>-metadata\<close>, in the same order.
\<close>

theorem getBlockResources_templates:
  assumes "getBlockResources doc = Inr (doc', r)"
  shows "set (templates r) \<subseteq> set (components r) \<and>
         templates r = filter (\<lambda>t. \<not> endsWith t ''-metadata'') (components r) \<and>
         set (templates r) = {t \<in> set (components r). \<not> endsWith t ''-metadata''}"
proof -
  have "templates_follow_components \<lparr>components = [], templates = [], replaced = []\<rparr>"
    by (simp add: templates_follow_components_def)
  with assms have "templates_follow_components r"
    unfolding getBlockResources_def by (rule forEach_block_follows)
  then have eq: "templates r = filter (\<lambda>t. \<not> endsWith t ''-metadata'') (components r)"
    by (simp add: templates_follow_components_def)
  have "set (filter (\<lambda>t. \<not> endsWith t ''-metadata'') (components r))
          = {t \<in> set (components r). \<not> endsWith t ''-metadata''}"
    by simp
  with eq show ?thesis by auto
qed

theorem getBlockResources_templates_witness:
  "getBlockResources metadata_page =
     Inr (Element ''html'' []
            [Element ''head'' [] [],
             Element ''body'' []
               [Element ''aem-header'' [] [],
                Element ''main'' []
                  [Element ''div'' []
                     [Element ''aem-cards'' [] [Element ''div'' [(''slot'', ''item'')] [Text ''one'']],
                      Element ''aem-section-metadata'' []
                        [Element ''div'' [(''slot'', ''item'')]
                           [Element ''div'' [] [Text ''Style''], Element ''div'' [] [Text ''dark'']]],
                      Element ''div'' [(''class'', ''cards''), (''data-status'', ''loaded'')] [],
                      Element ''div'' [(''class'', ''fragment'')]
                        [Element ''div'' [] [Element ''div'' [] [Text ''/nav'']]]]]]],
          \<lparr>components = [''aem-header'', ''aem-cards'', ''aem-section-metadata''],
             templates = [''aem-header'', ''aem-cards''],
             replaced =
               [Element ''header'' [(''data-status'', ''loaded'')] [],
                Element ''div'' [(''class'', ''Cards''), (''data-status'', ''loaded'')]
                  [Element ''div'' [] [Text ''one'']],
                Element ''div'' [(''class'', ''section-metadata''), (''data-status'', ''loaded'')]
                  [Element ''div'' [] [Element ''div'' [] [Text ''Style''], Element ''div'' [] [Text ''dark'']]]]\<rparr>)
   \<and> set [''aem-header'', ''aem-cards''] \<subseteq> set [''aem-header'', ''aem-cards'', ''aem-section-metadata'']
   \<and> [''aem-header'', ''aem-cards'']
       = filter (\<lambda>t. \<not> endsWith t ''-metadata'') [''aem-header'', ''aem-cards'', ''aem-section-metadata'']"
proof -
  have scan: "getBlockResources metadata_page =
     Inr (Element ''html'' []
            [Element ''head'' [] [],
             Element ''body'' []
               [Element ''aem-header'' [] [],
                Element ''main'' []
                  [Element ''div'' []
                     [Element ''aem-cards'' [] [Element ''div'' [(''slot'', ''item'')] [Text ''one'']],
                      Element ''aem-section-metadata'' []
                        [Element ''div'' [(''slot'', ''item'')]
                           [Element ''div'' [] [Text ''Style''], Element ''div'' [] [Text ''dark'']]],
                      Element ''div'' [(''class'', ''cards''), (''data-status'', ''loaded'')] [],
                      Element ''div'' [(''class'', ''fragment'')]
                        [Element ''div'' [] [Element ''div'' [] [Text ''/nav'']]]]]]],
          \<lparr>components = [''aem-header'', ''aem-cards'', ''aem-section-metadata''],
             templates = [''aem-header'', ''aem-cards''],
             replaced =
               [Element ''header'' [(''data-status'', ''loaded'')] [],
                Element ''div'' [(''class'', ''Cards''), (''data-status'', ''loaded'')]
                  [Element ''div'' [] [Text ''one'']],
                Element ''div'' [(''class'', ''section-metadata''), (''data-status'', ''loaded'')]
                  [Element ''div'' [] [Element ''div'' [] [Text ''Style''], Element ''div'' [] [Text ''dark'']]]]\<rparr>)"
    by code_simp
  from getBlockResources_templates [OF scan] scan show ?thesis
    by simp
qed

text \<open>
  Claim C3. A second scan of a scanned document is supposed to transform nothing and to
  return nothing. On a page with a block inside a block it does both: the first scan
  leaves a copy of the inner block in the document, untransformed and unmarked, and
  the second scan transforms that copy and returns its tag again.
\<close>

theorem getBlockResources_rescan_nested:
  "getBlockResources nested_page =
     Inr (nested_page_scanned,
          \<lparr>components = [''aem-columns'', ''aem-card''],
             templates = [''aem-columns'', ''aem-card''],
             replaced =
               [Element ''div'' [(''class'', ''card''), (''data-status'', ''loaded'')] [Text ''x''],
                Element ''div'' [(''class'', ''columns''), (''data-status'', ''loaded'')]
                  [Element ''aem-card'' [] [Text ''x'']]]\<rparr>)
   \<and> getBlockResources nested_page_scanned =
     Inr (nested_page_rescanned,
          \<lparr>components = [''aem-card''],
             templates = [''aem-card''],
             replaced =
               [Element ''div'' [(''class'', ''card''), (''slot'', ''item''), (''data-status'', ''loaded'')]
                  [Text ''x'']]\<rparr>)
   \<and> nested_page_rescanned \<noteq> nested_page_scanned"
  by code_simp

text \<open>
  What does hold: a marked element is kept as it is, and on a document without a block
  inside a block the second scan changes nothing and returns nothing.
\<close>

lemma forEach_block_skips_marked:
  "status_skipped atts \<Longrightarrow>
     forEach_block (Element tg atts cs) r =
       (if tg = ''template'' then Inr (Element tg atts cs, r)
        else (case forEach_blocks cs r of
                Inl e \<Rightarrow> Inl e
              | Inr (cs', r') \<Rightarrow> Inr (Element tg atts cs', r')))"
  by simp

lemma forEach_block_no_block:
  "\<not> has_block n \<Longrightarrow> forEach_block n r = Inr (n, r)"
  "\<not> has_blocks ns \<Longrightarrow> forEach_blocks ns r = Inr (ns, r)"
  by (induction n and ns arbitrary: r and r rule: has_block_has_blocks.induct) auto

lemma slot_item_block [simp]: "has_block (slot_item n) = has_block n"
  by (cases n)
     (auto simp: matches_block_def status_skipped_def classList_def getAttribute_def
                 setAttribute_def update_conv')

lemma slot_items_blocks [simp]: "has_blocks (map slot_item ns) = has_blocks ns"
  by (induction ns) auto

lemma toLowerCase_aem:
  "toLowerCase (CHR ''a'' # CHR ''e'' # CHR ''m'' # CHR ''-'' # x)
     = CHR ''a'' # CHR ''e'' # CHR ''m'' # CHR ''-'' # toLowerCase x"
  by (simp add: toLowerCase_def ascii_lower_def)

lemma custom_element_no_block:
  assumes "transformToCustomElement (Element tg atts cs) = Inr n'"
  shows "has_block n' = has_blocks cs"
proof -
  from assms obtain x where "n' = Element (CHR ''a'' # CHR ''e'' # CHR ''m'' # CHR ''-'' # x) [] (map slot_item cs)"
    by (auto simp: transformToCustomElement_def createElement_def toLowerCase_aem
             split: sum.splits if_splits option.splits)
  then show ?thesis by (simp add: matches_block_def getAttribute_def)
qed

lemma forEach_block_flat:
  "\<not> nested_block n \<Longrightarrow> forEach_block n r = Inr (n', r') \<Longrightarrow> \<not> has_block n'"
  "\<not> nested_blocks ns \<Longrightarrow> forEach_blocks ns r = Inr (ns', r') \<Longrightarrow> \<not> has_blocks ns'"
proof (induction n and ns arbitrary: r n' r' and r ns' r' rule: nested_block_nested_blocks.induct)
  case (1 t)
  then show ?case by auto
next
  case (2 tg atts cs)
  show ?case
  proof (cases "tg = ''template''")
    case True
    with 2(3) show ?thesis by auto
  next
    case nt: False
    show ?thesis
    proof (cases "matches_block tg atts \<and> \<not> status_skipped atts")
      case True
      with 2(2) nt have nb: "\<not> has_blocks cs" by simp
      from 2(3) True nt obtain ce where
        ce: "transformToCustomElement (Element tg (setAttribute ''data-status'' ''loading'' atts) cs) = Inr ce"
        and n': "n' = ce"
        by (auto split: sum.splits prod.splits)
      from custom_element_no_block[OF ce] nb n' show ?thesis by simp
    next
      case False
      with 2(2) nt have nn: "\<not> nested_blocks cs" by simp
      from 2(3) False nt obtain cs' where
        cs': "forEach_blocks cs r = Inr (cs', r')" and n': "n' = Element tg atts cs'"
        by (auto split: sum.splits prod.splits)
      from 2(1)[OF False nn cs'] n' False nt show ?thesis by auto
    qed
  qed
next
  case 3
  then show ?case by auto
next
  case (4 n ns)
  from 4(4) obtain m r1 ms where
    a: "forEach_block n r = Inr (m, r1)" and b: "forEach_blocks ns r1 = Inr (ms, r')"
    and c: "ns' = m # ms"
    by (auto split: sum.splits prod.splits)
  from 4(3) have "\<not> nested_block n" "\<not> nested_blocks ns" by auto
  with 4(1)[OF _ a] 4(2)[OF _ b] c show ?case by auto
qed

lemma getBlockResources_rescan_flat:
  assumes "\<not> nested_block doc" and "getBlockResources doc = Inr (doc', r)"
  shows "getBlockResources doc' = Inr (doc', \<lparr>components = [], templates = [], replaced = []\<rparr>)"
  using forEach_block_flat(1)[OF assms(1) assms(2)[unfolded getBlockResources_def]]
  by (simp add: getBlockResources_def forEach_block_no_block)

section \<open>Properties of the component base class\<close>




lemma children_template [simp]: "children (Element ''template'' atts cs) = []"
  by (simp add: children_def)



lemma Array_push_error: "Array_push x y = Inl e \<Longrightarrow> e = TypeError"
  by (cases y) auto

lemma Map_set_error: "Map_set k v y = Inl e \<Longrightarrow> e = TypeError"
  by (cases y) auto

lemma forEach_slot_error:
  "forEach_slot innerText mv n i vs = Inl e \<Longrightarrow> e = TypeError"
  "forEach_slots innerText mv ns i vs = Inl e \<Longrightarrow> e = TypeError"
proof (induction innerText mv n i vs and innerText mv ns i vs arbitrary: e and e
       rule: forEach_slot_forEach_slots.induct)
  case (1 innerText mv t i vs)
  then show ?case by simp
next
  case (2 innerText mv tg atts cs i vs)
  then show ?case
    by (auto split: if_splits list.splits sum.splits prod.splits
             dest: Array_push_error Map_set_error)
next
  case (3 innerText mv i vs)
  then show ?case by simp
next
  case (4 innerText mv n ns i vs)
  then show ?case by (auto split: sum.splits prod.splits)
qed

lemma forEach_slot_malformed:
  "\<exists>item \<in> set (items_of n). length (children item) < 2 \<Longrightarrow>
     forEach_slot innerText True n i vs = Inl TypeError"
  "\<exists>item \<in> set (items_of_list ns). length (children item) < 2 \<Longrightarrow>
     forEach_slots innerText True ns i vs = Inl TypeError"
proof (induction n and ns arbitrary: i vs and i vs rule: items_of_items_of_list.induct)
  case (1 t)
  then show ?case by simp
next
  case (2 tg atts cs)
  show ?case
  proof (cases "getAttribute atts ''slot'' = Some ''item''")
    case True
    show ?thesis
    proof (cases "children (Element tg atts cs)")
      case Nil
      with True show ?thesis by simp
    next
      case (Cons key rest)
      show ?thesis
      proof (cases rest)
        case Nil
        with Cons True show ?thesis by simp
      next
        case (Cons val others)
        with \<open>children (Element tg atts cs) = key # rest\<close>
        have ch: "children (Element tg atts cs) = key # val # others" by simp
        then have nt: "tg \<noteq> ''template''" by (auto simp: children_def)
        with 2(2) True ch have "\<exists>item \<in> set (items_of_list cs). length (children item) < 2"
          by auto
        from 2(1)[OF nt this]
        have ih: "\<And>i vs. forEach_slots innerText True cs i vs = Inl TypeError" .
        show ?thesis
        proof (cases "Map_set (innerText i key) (childNodes val) vs")
          case (Inl e)
          then have "e = TypeError" by (rule Map_set_error)
          with Inl True ch show ?thesis by simp
        next
          case (Inr vs')
          with True ch ih show ?thesis by simp
        qed
      qed
    qed
  next
    case False
    with 2(2) have nt: "tg \<noteq> ''template''" by (auto split: if_splits)
    with 2(2) False have "\<exists>item \<in> set (items_of_list cs). length (children item) < 2" by auto
    from 2(1)[OF nt this] False nt show ?thesis by simp
  qed
next
  case 3
  then show ?case by simp
next
  case (4 n ns)
  show ?case
  proof (cases "\<exists>item \<in> set (items_of n). length (children item) < 2")
    case True
    from 4(1)[OF True] show ?thesis by simp
  next
    case False
    with 4(3) have "\<exists>item \<in> set (items_of_list ns). length (children item) < 2" by auto
    from 4(2)[OF this] have ih: "\<And>i vs. forEach_slots innerText True ns i vs = Inl TypeError" .
    show ?thesis
    proof (cases "forEach_slot innerText True n i vs")
      case (Inl e)
      with forEach_slot_error(1) show ?thesis by fastforce
    next
      case (Inr r)
      with ih show ?thesis by (cases r) simp
    qed
  qed
qed

lemma template_content_error: "template_content doc i = Inl e \<Longrightarrow> e = TypeError"
  by (auto simp: template_content_def split: option.splits node.splits if_splits)





text \<open>
  Claim C5. In mapped mode an item with fewer than two element children makes the
  constructor throw TypeError: on every such input, not only on some, whatever the
  items before it were and whatever \<^verbatim>\<open>innerText\<close> returns.
\<close>

theorem Block_constructor_malformed:
  assumes "\<exists>item \<in> set (items_of_list cs). length (children item) < 2"
  shows "Block_constructor innerText True doc (Element tg atts cs) = Inl TypeError"
proof (cases "template_content doc (toLowerCase tg)")
  case (Inl e)
  then have "e = TypeError" by (rule template_content_error)
  with Inl show ?thesis by (simp add: Block_constructor_def)
next
  case (Inr content)
  with forEach_slot_malformed(2) [OF assms] show ?thesis
    by (simp add: Block_constructor_def)
qed

theorem Block_constructor_malformed_witness:
  "list_ex (\<lambda>item. length (children item) < 2)
     (items_of_list
        [Element ''div'' [(''slot'', ''item'')] [Element ''div'' [] [Text ''Style''], Element ''div'' [] [Text ''dark'']],
         Element ''div'' [(''slot'', ''item'')] [Element ''div'' [] [Text ''Color'']]]) \<and>
   Block_constructor rendered True template_page
     (Element ''aem-section-metadata'' []
        [Element ''div'' [(''slot'', ''item'')] [Element ''div'' [] [Text ''Style''], Element ''div'' [] [Text ''dark'']],
         Element ''div'' [(''slot'', ''item'')] [Element ''div'' [] [Text ''Color'']]])
     = Inl TypeError"
proof -
  have l: "list_ex (\<lambda>item. length (children item) < 2)
     (items_of_list
        [Element ''div'' [(''slot'', ''item'')] [Element ''div'' [] [Text ''Style''], Element ''div'' [] [Text ''dark'']],
         Element ''div'' [(''slot'', ''item'')] [Element ''div'' [] [Text ''Color'']]])"
    by code_simp
  then have "\<exists>item \<in> set (items_of_list
        [Element ''div'' [(''slot'', ''item'')] [Element ''div'' [] [Text ''Style''], Element ''div'' [] [Text ''dark'']],
         Element ''div'' [(''slot'', ''item'')] [Element ''div'' [] [Text ''Color'']]]). length (children item) < 2"
    by (simp add: list_ex_iff)
  from Block_constructor_malformed [OF this] l show ?thesis by simp
qed

section \<open>Properties of selection\<close>

lemma select_found:
  "select_node sel par n = Some p \<Longrightarrow>
     \<exists>tg atts cs par'. node_at n p = Some (Element tg atts cs) \<and> sel par' tg atts"
  "select_nodes sel par i ns = Some p \<Longrightarrow>
     \<exists>k q. p = (i + k) # q \<and> k < length ns \<and> select_node sel par (ns ! k) = Some q \<and>
            (\<forall>j<k. select_node sel par (ns ! j) = None) \<and>
            (\<exists>tg atts cs par'. node_at (ns ! k) q = Some (Element tg atts cs) \<and> sel par' tg atts)"
proof (induction sel par n and sel par i ns arbitrary: p and p rule: select_node_select_nodes.induct)
  case (1 sel parent t)
  then show ?case by simp
next
  case (2 sel parent tg atts cs)
  show ?case
  proof (cases "sel parent tg atts")
    case True
    with 2(2) show ?thesis by auto
  next
    case False
    with 2(2) have nt: "tg \<noteq> ''template''" and s: "select_nodes sel tg 0 cs = Some p"
      by (auto split: if_splits)
    from 2(1)[OF False nt s] show ?thesis by auto
  qed
next
  case (3 sel parent i)
  then show ?case by simp
next
  case (4 sel parent i n ns)
  show ?case
  proof (cases "select_node sel parent n")
    case None
    with 4(3) have "select_nodes sel parent (Suc i) ns = Some p" by simp
    from 4(2)[OF None this] obtain k q where
      kq: "p = (Suc i + k) # q" "k < length ns" "select_node sel parent (ns ! k) = Some q"
          "\<forall>j<k. select_node sel parent (ns ! j) = None"
          "\<exists>tg atts cs par'. node_at (ns ! k) q = Some (Element tg atts cs) \<and> sel par' tg atts"
      by blast
    have "\<forall>j<Suc k. select_node sel parent ((n # ns) ! j) = None"
      using kq(4) None by (auto simp: less_Suc_eq_0_disj)
    with kq show ?thesis by (intro exI[of _ "Suc k"] exI[of _ q]) auto
  next
    case (Some q)
    with 4(3) have "p = i # q" by simp
    with Some 4(1)[OF Some] show ?thesis by (intro exI[of _ 0] exI[of _ q]) auto
  qed
qed

lemma element_querySelector_found:
  assumes "element_querySelector sel el = Some p"
  shows "\<exists>tg atts cs par'. node_at el p = Some (Element tg atts cs) \<and> sel par' tg atts"
proof -
  from select_found(2) [OF assms [unfolded element_querySelector_def]]
  obtain k q tg atts cs par' where kq: "p = (0 + k) # q" "k < length (childNodes el)"
    "node_at (childNodes el ! k) q = Some (Element tg atts cs)" "sel par' tg atts"
    by auto
  from kq(1,2,3) have "node_at el p = Some (Element tg atts cs)" by simp
  with kq(4) show ?thesis by (intro exI conjI)
qed

lemma select_nodes_first:
  "k < length ns \<Longrightarrow> select_node sel par (ns ! k) = Some q \<Longrightarrow>
   (\<forall>j<k. select_node sel par (ns ! j) = None) \<Longrightarrow>
   select_nodes sel par i ns = Some ((i + k) # q)"
proof (induction ns arbitrary: k i)
  case Nil
  then show ?case by simp
next
  case (Cons n ns)
  show ?case
  proof (cases k)
    case 0
    with Cons.prems show ?thesis by simp
  next
    case (Suc k')
    with Cons.prems have a: "select_node sel par n = None" by auto
    from Cons.prems Suc have b: "k' < length ns" "select_node sel par (ns ! k') = Some q"
      "\<forall>j<k'. select_node sel par (ns ! j) = None" by auto
    from Cons.IH[OF b, of "Suc i"] a Suc show ?thesis by simp
  qed
qed

lemma node_at_replace_at:
  "node_at n p = Some x \<Longrightarrow> node_at (replace_at p new n) p = Some new"
proof (induction p arbitrary: n)
  case Nil
  then show ?case by simp
next
  case (Cons i p)
  then show ?case by (cases n) (auto split: if_splits)
qed

lemma select_node_replace_at:
  "select_node sel par n = Some p \<Longrightarrow> \<forall>par'. sel par' tg' atts' \<Longrightarrow>
   select_node sel par (replace_at p (Element tg' atts' cs') n) = Some p"
proof (induction p arbitrary: n par)
  case Nil
  then show ?case by simp
next
  case (Cons i p)
  from Cons.prems(1) obtain tg atts cs where n: "n = Element tg atts cs"
    by (cases n) auto
  with Cons.prems(1) have ns: "\<not> sel par tg atts" "tg \<noteq> ''template''"
      "select_nodes sel tg 0 cs = Some (i # p)"
    by (auto split: if_splits)
  from select_found(2)[OF ns(3)] have k: "i < length cs" "select_node sel tg (cs ! i) = Some p"
    "\<forall>j<i. select_node sel tg (cs ! j) = None" by auto
  from Cons.IH[OF k(2) Cons.prems(2)]
  have "select_node sel tg (replace_at p (Element tg' atts' cs') (cs ! i)) = Some p" .
  with k have "select_nodes sel tg 0 (cs[i := replace_at p (Element tg' atts' cs') (cs ! i)])
                 = Some ((0 + i) # p)"
    by (intro select_nodes_first) auto
  with n ns k show ?case by simp
qed

section \<open>Properties of hero promotion\<close>

lemma precedes_Nil [simp]: "precedes p [] = False"
  by (cases p) auto

lemma hero_candidate_after:
  assumes pic: "select_nodes sel_p_picture ''picture'' 0 pcs = None"
  shows "hero_candidate (Element mt matts
           (Element ''div'' [(''class'', ''hero'')]
              [Element ''picture'' patts pcs, Element ''h1'' hatts hcs] # rest)) = None"
proof -
  let ?section = "Element ''div'' [(''class'', ''hero'')]
                    [Element ''picture'' patts pcs, Element ''h1'' hatts hcs]"
  have h: "\<exists>q. select_nodes sel_h1 mt 0 (?section # rest) = Some (0 # q) \<and>
               (q = [1] \<or> (\<exists>r. q = 0 # r))"
    by (cases "select_nodes sel_h1 ''picture'' 0 pcs") (auto simp: sel_h1_def)
  have p: "select_nodes sel_p_picture mt 0 (?section # rest) = None \<or>
           (\<exists>r. select_nodes sel_p_picture mt 0 (?section # rest) = Some (0 # 1 # r)) \<or>
           (\<exists>k r. select_nodes sel_p_picture mt 0 (?section # rest) = Some (Suc k # r))"
  proof (cases "select_nodes sel_p_picture ''h1'' 0 hcs")
    case None
    show ?thesis
    proof (cases "select_nodes sel_p_picture mt (Suc 0) rest")
      case None
      with \<open>select_nodes sel_p_picture ''h1'' 0 hcs = None\<close> pic show ?thesis
        by (simp add: sel_p_picture_def)
    next
      case (Some a)
      from select_found(2)[OF Some] obtain k r where "a = (Suc 0 + k) # r" by auto
      with Some \<open>select_nodes sel_p_picture ''h1'' 0 hcs = None\<close> pic show ?thesis
        by (simp add: sel_p_picture_def)
    qed
  next
    case (Some a)
    with pic show ?thesis by (simp add: sel_p_picture_def)
  qed
  from h p show ?thesis
    by (auto simp: hero_candidate_def element_querySelector_def)
qed

text \<open>
  Claim C6, amended. \<open>hero_candidate main = Some (pp, ph)\<close> says that \<^verbatim>\<open>main\<close>
  holds a heading and a picture in a paragraph and that the first such picture, at
  \<open>pp\<close>, comes before the first heading, at \<open>ph\<close>. Then \<^verbatim>\<open>main\<close> gets a new first
  child, a \<^verbatim>\<open>div\<close> of class \<^verbatim>\<open>hero\<close> that holds copies of the picture and of the
  heading, followed by its former children without the picture's paragraph and without
  the heading. Without a candidate the document is returned as it is. A second run on
  the promoted document returns it as it is when the promoted picture holds no picture
  in a paragraph of its own.
\<close>

theorem buildHeroBlock_promotion:
  assumes "document_querySelector sel_main doc = Some pm"
    and "node_at doc pm = Some main"
  shows "(hero_candidate main = None \<longrightarrow> buildHeroBlock doc = Inr doc) \<and>
         (\<forall>pp ph. hero_candidate main = Some (pp, ph) \<longrightarrow>
            (\<exists>patts pcs hatts hcs promoted.
               node_at main pp = Some (Element ''picture'' patts pcs) \<and>
               node_at main ph = Some (Element ''h1'' hatts hcs) \<and>
               promoted =
                 replace_at pm
                   (Element ''main'' (attributes main)
                      (Element ''div'' [(''class'', ''hero'')]
                         [Element ''picture'' patts pcs, Element ''h1'' hatts hcs]
                       # without_originals main pp ph))
                   doc \<and>
               buildHeroBlock doc = Inr promoted \<and>
               (element_querySelector sel_p_picture (Element ''picture'' patts pcs) = None \<longrightarrow>
                  buildHeroBlock promoted = Inr promoted)))"
proof (intro conjI allI impI)
  assume "hero_candidate main = None"
  with assms show "buildHeroBlock doc = Inr doc"
    by (simp add: buildHeroBlock_def)
next
  fix pp ph
  assume cand: "hero_candidate main = Some (pp, ph)"
  from select_found(1) [OF assms(1) [unfolded document_querySelector_def]] assms(2)
  have mt: "tagName main = ''main''" by (auto simp: sel_main_def)
  from cand have qh: "element_querySelector sel_h1 main = Some ph"
    and qp: "element_querySelector sel_p_picture main = Some pp"
    by (auto simp: hero_candidate_def split: option.splits if_splits)
  from element_querySelector_found [OF qp] obtain patts pcs where
    pic: "node_at main pp = Some (Element ''picture'' patts pcs)"
    by (auto simp: sel_p_picture_def)
  from element_querySelector_found [OF qh] obtain hatts hcs where
    h1: "node_at main ph = Some (Element ''h1'' hatts hcs)"
    by (auto simp: sel_h1_def)
  let ?main' = "Element ''main'' (attributes main)
                  (Element ''div'' [(''class'', ''hero'')]
                     [Element ''picture'' patts pcs, Element ''h1'' hatts hcs]
                   # without_originals main pp ph)"
  let ?doc' = "replace_at pm ?main' doc"
  have first: "buildHeroBlock doc = Inr ?doc'"
    using assms cand pic h1 mt by (simp add: buildHeroBlock_def promote_def)
  have again: "buildHeroBlock ?doc' = Inr ?doc'"
    if "element_querySelector sel_p_picture (Element ''picture'' patts pcs) = None"
  proof -
    have m: "document_querySelector sel_main ?doc' = Some pm"
      unfolding document_querySelector_def
      by (rule select_node_replace_at [OF assms(1) [unfolded document_querySelector_def]])
         (simp add: sel_main_def)
    have n: "node_at ?doc' pm = Some ?main'"
      by (rule node_at_replace_at [OF assms(2)])
    from that have "select_nodes sel_p_picture ''picture'' 0 pcs = None"
      by (simp add: element_querySelector_def)
    then have "hero_candidate ?main' = None" by (rule hero_candidate_after)
    with m n show ?thesis by (simp add: buildHeroBlock_def)
  qed
  show "\<exists>patts pcs hatts hcs promoted.
               node_at main pp = Some (Element ''picture'' patts pcs) \<and>
               node_at main ph = Some (Element ''h1'' hatts hcs) \<and>
               promoted =
                 replace_at pm
                   (Element ''main'' (attributes main)
                      (Element ''div'' [(''class'', ''hero'')]
                         [Element ''picture'' patts pcs, Element ''h1'' hatts hcs]
                       # without_originals main pp ph))
                   doc \<and>
               buildHeroBlock doc = Inr promoted \<and>
               (element_querySelector sel_p_picture (Element ''picture'' patts pcs) = None \<longrightarrow>
                  buildHeroBlock promoted = Inr promoted)"
  proof (intro exI conjI impI)
    show "node_at main pp = Some (Element ''picture'' patts pcs)" by (rule pic)
    show "node_at main ph = Some (Element ''h1'' hatts hcs)" by (rule h1)
    show "?doc' = ?doc'" by (rule refl)
    show "buildHeroBlock doc = Inr ?doc'" by (rule first)
    assume "element_querySelector sel_p_picture (Element ''picture'' patts pcs) = None"
    then show "buildHeroBlock ?doc' = Inr ?doc'" by (rule again)
  qed
qed


theorem buildHeroBlock_promotion_witness:
  "document_querySelector sel_main hero_page = Some [1, 0] \<and>
   node_at hero_page [1, 0] = Some hero_main \<and>
   hero_candidate hero_main = Some ([0, 0, 0], [0, 1]) \<and>
   buildHeroBlock hero_page = Inr hero_page_promoted \<and>
   buildHeroBlock hero_page_promoted = Inr hero_page_promoted \<and>
   document_querySelector sel_main inverted_page = Some [1, 0] \<and>
   node_at inverted_page [1, 0] = Some inverted_main \<and>
   hero_candidate inverted_main = None \<and>
   buildHeroBlock inverted_page = Inr inverted_page"
proof -
  have q: "document_querySelector sel_main hero_page = Some [1, 0]" by code_simp
  have n: "node_at hero_page [1, 0] = Some hero_main" by code_simp
  have c: "hero_candidate hero_main = Some ([0, 0, 0], [0, 1])" by code_simp
  from buildHeroBlock_promotion [OF q n] c
  obtain patts pcs promoted where
    a: "node_at hero_main [0, 0, 0] = Some (Element ''picture'' patts pcs)"
    and b: "buildHeroBlock hero_page = Inr promoted"
    and d: "element_querySelector sel_p_picture (Element ''picture'' patts pcs) = None \<longrightarrow>
            buildHeroBlock promoted = Inr promoted"
    by auto
  have e: "node_at hero_main [0, 0, 0] = Some (Element ''picture'' [] [Element ''img'' [(''src'', ''a.png'')] []])"
    by code_simp
  have f: "buildHeroBlock hero_page = Inr hero_page_promoted" by code_simp
  have g: "element_querySelector sel_p_picture (Element ''picture'' [] [Element ''img'' [(''src'', ''a.png'')] []]) = None"
    by code_simp
  from a e have "patts = [] \<and> pcs = [Element ''img'' [(''src'', ''a.png'')] []]" by simp
  with b d f g have again: "buildHeroBlock hero_page_promoted = Inr hero_page_promoted" by simp
  have q': "document_querySelector sel_main inverted_page = Some [1, 0]" by code_simp
  have n': "node_at inverted_page [1, 0] = Some inverted_main" by code_simp
  have c': "hero_candidate inverted_main = None" by code_simp
  from buildHeroBlock_promotion [OF q' n'] c'
  have same: "buildHeroBlock inverted_page = Inr inverted_page" by simp
  from q n c f again q' n' c' same show ?thesis by simp
qed

text \<open>
  Claim C6 as stated fails on a second run: the promoted picture below holds a picture
  in a paragraph of its own, which the second run finds before the promoted heading and
  promotes in its turn.
\<close>

theorem buildHeroBlock_second_run_counterexample:
  "buildHeroBlock nested_picture_page = Inr nested_picture_page_promoted \<and>
   nested_picture_page_promoted \<noteq> nested_picture_page \<and>
   buildHeroBlock nested_picture_page_promoted = Inr nested_picture_page_promoted_twice \<and>
   nested_picture_page_promoted_twice \<noteq> nested_picture_page_promoted"
  by code_simp

section \<open>Properties of the loaders\<close>

lemma preloadFragment_resume_settles:
  "fst (preloadFragment_resume pf (Fetching slot path) w) = Fulfilled ()"
  by (simp add: preloadFragment_resume_def Let_def split: fetch_result.splits option.splits)

lemma preloadFragment_network_failure:
  "fetch pf (fragment_url path) = Network_failure \<Longrightarrow>
   preloadFragment_resume pf (Fetching slot path) w =
     (Fulfilled (), emit (Console_error (''Loading fragment '' @ path @ '' failed:'')) w)"
  by (simp add: preloadFragment_resume_def)

lemma preloadFragment_response:
  "fetch pf (fragment_url path) = Response ok (Some text) \<Longrightarrow>
   document (snd (preloadFragment_resume pf (Fetching slot path) w)) =
     set_innerHTML slot (parseHTML pf text) (document w)"
  by (simp add: preloadFragment_resume_def emit_def Let_def)

text \<open>
  Claim C1. For a response that is not \<^verbatim>\<open>ok\<close> the claim asks that the slot keeps
  its content. With the fragment answered by status 404 and the body
  \<^verbatim>\<open>Not Found\<close>, the call requests the fragment, logs the warning and is fulfilled,
  and the slot, which held the path, holds the text of the error page.
\<close>

theorem preloadFragment_not_ok:
  "preloadFragment example_platform [1, 0, 0, 0] (page_world fragment_page) =
     (Fulfilled (),
      \<lparr>document = fragment_page_after,
         registry = [],
         events = [Fetch ''/fragments/footer.plain.html'',
                   Console_warn ''failed to preload fragment /fragments/footer'']\<rparr>) \<and>
   fragment_page_after \<noteq> fragment_page"
  by code_simp

text \<open>
  Claim C2. With a default export the promise is fulfilled with the name and the class.
  For a module that loads without a default export the claim asks for a warning and a
  rejection; the promise stays pending and nothing is logged.
\<close>

theorem loadBlock_no_default_export:
  "loadBlock example_platform [] ''aem-hero'' (page_world fragment_page) =
     (Fulfilled (''aem-hero'', ''Hero''),
      \<lparr>document = fragment_page, registry = [], events = [Import ''/blocks/aem-hero/aem-hero.js'']\<rparr>) \<and>
   loadBlock example_platform [] ''aem-cards'' (page_world fragment_page) =
     (Pending,
      \<lparr>document = fragment_page, registry = [], events = [Import ''/blocks/aem-cards/aem-cards.js'']\<rparr>) \<and>
   loadBlock example_platform [] ''aem-footer'' (page_world fragment_page) =
     (Rejected (Some TypeError),
      \<lparr>document = fragment_page, registry = [],
         events = [Import ''/blocks/aem-footer/aem-footer.js'',
                   Console_warn ''Failed to load module for aem-footer'']\<rparr>)"
  by code_simp

lemma loadBlock_settles:
  "loadBlock pf base blockName w =
     (case import_module pf (block_href base blockName) of
        Module (Some c) \<Rightarrow> (Fulfilled (blockName, c), emit (Import (block_href base blockName)) w)
      | Module None \<Rightarrow> (Pending, emit (Import (block_href base blockName)) w)
      | Import_failed e \<Rightarrow>
          (Rejected (Some e),
           emit (Console_warn (''Failed to load module for '' @ blockName))
             (emit (Import (block_href base blockName)) w)))"
  by (simp add: loadBlock_def Let_def split: import_result.splits option.splits)

lemma split_by_nonempty [simp]: "split_by P s \<noteq> []"
  by (induction s) (auto split: list.splits)

lemma hd_split_by:
  "\<forall>c \<in> set s. \<not> P c \<Longrightarrow> P d \<Longrightarrow> hd (split_by P (s @ d # ys)) = s"
  by (induction s) (auto split: list.splits)

lemma last_split_by_plain:
  "\<forall>c \<in> set s. \<not> P c \<Longrightarrow> split_by P s = [s]"
  by (induction s) (auto split: list.splits)

lemma split_by_two:
  "P d \<Longrightarrow> \<exists>a b bs. split_by P (xs @ d # s) = a # b # bs"
proof (induction xs)
  case Nil
  then show ?case by (cases "split_by P s") auto
next
  case (Cons x xs)
  then show ?case by (auto split: list.splits)
qed

lemma last_split_by:
  "\<forall>c \<in> set s. \<not> P c \<Longrightarrow> P d \<Longrightarrow> last (split_by P (xs @ d # s)) = s"
proof (induction xs)
  case Nil
  then show ?case by (simp add: last_split_by_plain)
next
  case (Cons x xs)
  from Cons.prems(2) have "\<exists>a b bs. split_by P (xs @ d # s) = a # b # bs"
    by (rule split_by_two)
  then obtain a b bs where "split_by P (xs @ d # s) = a # b # bs" by blast
  with Cons show ?case by (auto split: list.splits)
qed

lemma template_id_name:
  assumes "CHR ''/'' \<notin> set blockName" "CHR ''.'' \<notin> set blockName"
  shows "template_id (template_href base blockName) = blockName"
proof -
  have a: "\<forall>c \<in> set (blockName @ ''.html''). \<not> (c = CHR ''/'')"
    using assms(1) by auto
  have "template_href base blockName = (base @ ''/blocks/'' @ blockName) @ CHR ''/'' # (blockName @ ''.html'')"
    by (simp add: template_href_def)
  then have "last (split CHR ''/'' (template_href base blockName)) = blockName @ ''.html''"
    unfolding split_def using last_split_by[OF a, of "CHR ''/''" "base @ ''/blocks/'' @ blockName"]
    by simp
  moreover have "hd (split CHR ''.'' (blockName @ ''.html'')) = blockName"
    unfolding split_def using hd_split_by[of blockName "\<lambda>c. c = CHR ''.''" "CHR ''.''" "''html''"] assms(2)
    by auto
  ultimately show ?thesis by (simp add: template_id_def)
qed

lemma template_selector_plain:
  "css_string_plain i \<Longrightarrow> template_selector pf i = Inr (sel_template_id i)"
  by (simp add: template_selector_def)

lemma head_link_selector_plain:
  "css_string_plain href \<Longrightarrow> head_link_selector pf href = Inr (sel_head_link href)"
  by (simp add: head_link_selector_def)

section \<open>Properties of initialization\<close>

lemma emit_simps [simp]:
  "registry (emit e w) = registry w"
  "document (emit e w) = document w"
  "events (emit e w) = events w @ [e]"
  by (simp_all add: emit_def)

lemma child_index_update:
  "child_index tg k ns = Some j \<Longrightarrow>
     k \<le> j \<and> j - k < length ns \<and> child_index tg k (ns[j - k := Element tg atts cs]) = Some j"
proof (induction ns arbitrary: k)
  case Nil
  then show ?case by simp
next
  case (Cons n ns)
  show ?case
  proof (cases "isElement n \<and> tagName n = tg")
    case True
    with Cons.prems show ?thesis by simp
  next
    case False
    with Cons.prems have "child_index tg (Suc k) ns = Some j" by auto
    from Cons.IH[OF this] have ih: "Suc k \<le> j" "j - Suc k < length ns"
      "child_index tg (Suc k) (ns[j - Suc k := Element tg atts cs]) = Some j" by auto
    from ih(1) have "j - k = Suc (j - Suc k)" by simp
    with ih False show ?thesis by auto
  qed
qed

lemma child_index_element:
  "child_index tg k ns = Some j \<Longrightarrow> \<exists>atts cs. ns ! (j - k) = Element tg atts cs"
proof (induction ns arbitrary: k)
  case Nil
  then show ?case by simp
next
  case (Cons n ns)
  show ?case
  proof (cases "isElement n \<and> tagName n = tg")
    case True
    with Cons.prems show ?thesis by (cases n) auto
  next
    case False
    with Cons.prems have c: "child_index tg (Suc k) ns = Some j" by auto
    from child_index_update[OF c] have "Suc k \<le> j" by simp
    then have "j - k = Suc (j - Suc k)" by simp
    with Cons.IH[OF c] show ?thesis by simp
  qed
qed

lemma document_body_append_child:
  assumes "document_body doc = Some pb"
  shows "document_body (append_child pb new doc) = Some pb"
proof -
  from assms obtain i where i: "child_index ''body'' 0 (childNodes doc) = Some i" "pb = [i]"
    by (auto simp: document_body_def split: option.splits)
  then obtain tg atts cs where d: "doc = Element tg atts cs" by (cases doc) auto
  from child_index_update[OF i(1)] have len: "i < length cs" using d by simp
  from child_index_element[OF i(1)] d obtain batts bcs where b: "cs ! i = Element ''body'' batts bcs"
    by auto
  from child_index_update[OF i(1), of batts "bcs @ [new]"] d
  have "child_index ''body'' 0 (cs[i := Element ''body'' batts (bcs @ [new])]) = Some i" by simp
  with i d len b show ?thesis
    by (simp add: append_child_def document_body_def)
qed


lemma only_requests_simps [simp]:
  "only_requests []"
  "only_requests (es @ fs) = (only_requests es \<and> only_requests fs)"
  "only_requests (Fetch u # es) = only_requests es"
  "only_requests (Import u # es) = only_requests es"
  "only_requests (Console_warn m # es) = only_requests es"
  by (auto simp: only_requests_def)

lemma loadTemplate_effects:
  assumes "loadTemplate pf base t w = (p, w')"
  shows "registry w' = registry w"
    and "\<exists>es. events w' = events w @ es \<and> only_requests es"
    and "document_body (document w) \<noteq> None \<Longrightarrow> document_body (document w') \<noteq> None"
    and "fetch pf (template_href base t) \<noteq> Network_failure \<Longrightarrow> \<not> pending p"
  using assms
  by (auto simp: loadTemplate_def Let_def document_body_append_child
           split: if_splits fetch_result.splits option.splits list.splits sum.splits)



lemma preloadFragment_start_registry:
  "preloadFragment_start pf el w = (s, w') \<Longrightarrow> registry w' = registry w"
  by (auto simp: preloadFragment_start_def Let_def split: option.splits if_splits)

lemma preloadFragment_resume_registry:
  "registry (snd (preloadFragment_resume pf s w)) = registry w"
  by (auto simp: preloadFragment_resume_def Let_def split: started.splits fetch_result.splits option.splits)

lemma run_all_start_registry:
  "run_all (preloadFragment_start pf) els w = (ss, w') \<Longrightarrow> registry w' = registry w"
proof (induction els arbitrary: w ss w')
  case Nil
  then show ?case by simp
next
  case (Cons el els)
  obtain s w1 where a: "preloadFragment_start pf el w = (s, w1)"
    by (cases "preloadFragment_start pf el w")
  obtain ss' w2 where b: "run_all (preloadFragment_start pf) els w1 = (ss', w2)"
    by (cases "run_all (preloadFragment_start pf) els w1")
  from Cons.prems a b have "w' = w2" by simp
  with Cons.IH[OF b] preloadFragment_start_registry[OF a] show ?case by simp
qed

lemma fold_resume_registry:
  "registry (fold (\<lambda>s w2. snd (preloadFragment_resume pf s w2)) ss w) = registry w"
  by (induction ss arbitrary: w) (simp_all add: preloadFragment_resume_registry)

lemma preloadFragments_registry: "registry (preloadFragments pf w) = registry w"
proof -
  obtain ss w1 where a:
    "run_all (preloadFragment_start pf) (document_querySelectorAll sel_fragment (document w)) w = (ss, w1)"
    by (cases "run_all (preloadFragment_start pf) (document_querySelectorAll sel_fragment (document w)) w")
  with run_all_start_registry[OF a] show ?thesis
    by (simp add: preloadFragments_def fold_resume_registry)
qed



lemma run_all_loadTemplate_effects:
  "run_all (loadTemplate pf base) ts w = (ps, w') \<Longrightarrow>
     registry w' = registry w \<and> (\<exists>es. events w' = events w @ es \<and> only_requests es)"
proof (induction ts arbitrary: w ps w')
  case Nil
  then show ?case by simp
next
  case (Cons t ts)
  obtain p w1 where a: "loadTemplate pf base t w = (p, w1)" by (cases "loadTemplate pf base t w")
  obtain ps' w2 where b: "run_all (loadTemplate pf base) ts w1 = (ps', w2)"
    by (cases "run_all (loadTemplate pf base) ts w1")
  from Cons.prems a b have r: "w' = w2" by auto
  from Cons.IH[OF b] loadTemplate_effects(1,2)[OF a] r show ?case by auto
qed

lemma run_all_loadBlock_effects:
  "run_all (loadBlock pf base) ns w = (ps, w') \<Longrightarrow>
     registry w' = registry w \<and> (\<exists>es. events w' = events w @ es \<and> only_requests es)"
proof (induction ns arbitrary: w ps w')
  case Nil
  then show ?case by simp
next
  case (Cons n ns)
  obtain p w1 where a: "loadBlock pf base n w = (p, w1)" by (cases "loadBlock pf base n w")
  obtain ps' w2 where b: "run_all (loadBlock pf base) ns w1 = (ps', w2)"
    by (cases "run_all (loadBlock pf base) ns w1")
  from Cons.prems a b have r: "w' = w2" by auto
  from a have "registry w1 = registry w \<and> (\<exists>es. events w1 = events w @ es \<and> only_requests es)"
    by (auto simp: loadBlock_def Let_def split: import_result.splits option.splits)
  with Cons.IH[OF b] r show ?case by auto
qed





text \<open>
  While a load of either batch is pending, \<^verbatim>\<open>initialize\<close> waits: nothing has been
  registered and the body has not been marked.
\<close>

lemma initialize_hangs:
  assumes "initialize pf base w = Hangs w'"
  shows "\<exists>d1 es. buildHeroBlock (document w) = Inr d1 \<and> registry w' = registry w \<and>
           events w' = events (preloadFragments pf (w\<lparr>document := d1\<rparr>)) @ es \<and> only_requests es"
proof -
  from assms obtain d1 where h: "buildHeroBlock (document w) = Inr d1"
    by (cases "buildHeroBlock (document w)") (auto simp: initialize_def)
  define w1 where "w1 = preloadFragments pf (w\<lparr>document := d1\<rparr>)"
  from assms h obtain d2 r where s: "getBlockResources (document w1) = Inr (d2, r)"
    by (cases "getBlockResources (document w1)") (auto simp: initialize_def w1_def Let_def)
  obtain lt w2 where t: "run_all (loadTemplate pf base) (templates r) (w1\<lparr>document := d2\<rparr>) = (lt, w2)"
    by (cases "run_all (loadTemplate pf base) (templates r) (w1\<lparr>document := d2\<rparr>)")
  obtain lc w3 where c: "run_all (loadBlock pf base) (components r) w2 = (lc, w3)"
    by (cases "run_all (loadBlock pf base) (components r) w2")
  from assms h s t c have "w' = w3"
    by (auto simp: initialize_def Let_def w1_def [symmetric] split: if_splits option.splits)
  with run_all_loadTemplate_effects[OF t] run_all_loadBlock_effects[OF c]
  have "registry w' = registry w1 \<and> (\<exists>es. events w' = events w1 @ es \<and> only_requests es)"
    by auto
  with h show ?thesis
    by (auto simp: w1_def preloadFragments_registry)
qed

section \<open>Properties of telemetry\<close>










lemma run_case_keeps [simp]:
  "beacons (run_case checkpoint st) = beacons st"
  "hlx_rum (run_case checkpoint st) = hlx_rum st"
  by (simp_all add: run_case_def split: option.splits)



text \<open>When \<^verbatim>\<open>JSON.stringify\<close> throws, the call sends nothing.\<close>

lemma sampleRUM_throws:
  assumes "hlx_rum st = Some s" "rum_isSelected s" "rum_sanitizeURL s = Some f"
    and "JSON_stringify
           (JObj (spread
                    [(''weight'', JNum (of_nat (rum_weight s))),
                     (''id'', JStr (rum_id s)),
                     (''referer'', JStr (sanitize env f)),
                     (''checkpoint'', checkpoint),
                     (''t'', JNum (of_int (ping_time env - rum_firstReadTime s)))]
                    data))
           knownProperties = Inl e"
  shows "beacons (sampleRUM env checkpoint data st) = beacons st"
  using assms by (simp add: sampleRUM_def sendPing_def Let_def split: option.splits)




text \<open>
  More calls outside the amended claim: data that refers back to itself under a
  whitelisted name, data with a method \<^verbatim>\<open>toJSON\<close> that throws, that returns another
  object (the whitelist still applies to it) or that returns \<^verbatim>\<open>undefined\<close> (a beacon
  without a body). What sits under a name outside the whitelist is never looked at.
\<close>

lemma sampleRUM_not_serialisable:
  "beacons (sampleRUM rum_on (JStr ''error'')
              [(''source'', JObj [(''source'', JCyclic)])] first_call) = []"
  "beacons (sampleRUM rum_on (JStr ''error'')
              [(''toJSON'', JFun (Inl ErrorEvent))] first_call) = []"
  "beacons (sampleRUM rum_on (JStr ''error'')
              [(''toJSON'', JFun (Inr (JObj [(''id'', JStr ''x''), (''colour'', JStr ''red'')])))] first_call) =
     [(''https://rum.hlx.page/.rum/1'', Some (Json_obj [(''id'', Json_str ''x'')]))]"
  "beacons (sampleRUM rum_on (JStr ''error'')
              [(''toJSON'', JFun (Inr JUndefined))] first_call) =
     [(''https://rum.hlx.page/.rum/1'', None)]"
  "beacons (sampleRUM rum_on (JStr ''error'')
              [(''colour'', JBigInt 10), (''target'', JObj [(''colour'', JCyclic)])] first_call) =
     [(''https://rum.hlx.page/.rum/1'',
       Some (Json_obj
               [(''weight'', Json_num 1),
                (''id'', Json_str ''3e''),
                (''referer'', Json_str ''https://example.test/page?rum=on''),
                (''checkpoint'', Json_str ''error''),
                (''t'', Json_num 2),
                (''target'', Json_obj [])]))]"
  by code_simp+

section \<open>Repeated loads\<close>

lemma select_nodes_exists:
  "k < length ns \<Longrightarrow> select_node sel par (ns ! k) \<noteq> None \<Longrightarrow> select_nodes sel par i ns \<noteq> None"
proof (induction ns arbitrary: k i)
  case Nil
  then show ?case by simp
next
  case (Cons n ns)
  then show ?case by (cases k) (auto split: option.splits)
qed

lemma select_after_append:
  assumes "child_index tg0 0 (childNodes doc) = Some i"
    and "tagName doc \<noteq> ''template''" and "tg0 \<noteq> ''template''"
    and "sel tg0 tg' atts'"
  shows "document_querySelector sel (append_child [i] (Element tg' atts' cs') doc) \<noteq> None"
proof -
  from assms(1) obtain tg atts cs where d: "doc = Element tg atts cs" by (cases doc) auto
  from child_index_update[OF assms(1)] d have len: "i < length cs" by simp
  from child_index_element[OF assms(1)] d obtain hatts hcs where
    h: "cs ! i = Element tg0 hatts hcs" by auto
  let ?new = "Element tg' atts' cs'"
  let ?head = "Element tg0 hatts (hcs @ [?new])"
  have "select_node sel tg0 ((hcs @ [?new]) ! length hcs) \<noteq> None"
    using assms(4) by simp
  then have "select_nodes sel tg0 0 (hcs @ [?new]) \<noteq> None"
    by (intro select_nodes_exists[of "length hcs"]) auto
  then have "select_node sel tg ?head \<noteq> None"
    using assms(3) by auto
  then have "select_node sel tg ((cs[i := ?head]) ! i) \<noteq> None"
    using len by simp
  then have "select_nodes sel tg 0 (cs[i := ?head]) \<noteq> None"
    using len by (intro select_nodes_exists[of i]) auto
  then show ?thesis
    using d len h assms(2) by (auto simp: document_querySelector_def append_child_def)
qed

text \<open>
  The loads are cached by what they leave in the document: after \<^verbatim>\<open>loadCSS\<close> has
  added its link, and after \<^verbatim>\<open>loadTemplate\<close> has added a template element, the same
  call again is fulfilled at once and changes nothing.
\<close>

lemma loadCSS_twice:
  assumes "loadCSS pf href w = (p, w1)" and "css_string_plain href"
    and "document_head (document w) \<noteq> None" and "tagName (document w) \<noteq> ''template''"
  shows "loadCSS pf href w1 = (Fulfilled (), w1)"
proof (cases "document_querySelector (sel_head_link href) (document w) = None")
  case False
  with assms(1,2) show ?thesis by (auto simp: loadCSS_def head_link_selector_plain)
next
  case True
  from assms(3) obtain i where i: "child_index ''head'' 0 (childNodes (document w)) = Some i"
    "document_head (document w) = Some [i]"
    by (auto simp: document_head_def split: option.splits)
  let ?link = "Element ''link'' [(''rel'', ''stylesheet''), (''href'', href)] []"
  from assms(1,2) True i(2) have w1: "document w1 = append_child [i] ?link (document w)"
    by (auto simp: loadCSS_def Let_def head_link_selector_plain)
  have "document_querySelector (sel_head_link href) (append_child [i] ?link (document w)) \<noteq> None"
    by (rule select_after_append[OF i(1) assms(4)]) (simp_all add: sel_head_link_def getAttribute_def)
  with w1 assms(2) show ?thesis by (auto simp: loadCSS_def head_link_selector_plain)
qed

lemma loadTemplate_twice:
  assumes "fetch pf (template_href base blockName) = Response True (Some text)"
    and "parseHTML pf (trim text) = Element ''template'' tatts tcs # rest"
    and "document_body (document w) \<noteq> None" and "tagName (document w) \<noteq> ''template''"
    and "loadTemplate pf base blockName w = (p, w1)"
    and "css_string_plain (template_id (template_href base blockName))"
  shows "p = Fulfilled () \<and> loadTemplate pf base blockName w1 = (Fulfilled (), w1)"
proof (cases "document_querySelector (sel_template_id (template_id (template_href base blockName))) (document w) = None")
  case False
  with assms(5,6) show ?thesis by (auto simp: loadTemplate_def Let_def template_selector_plain)
next
  case True
  let ?i = "template_id (template_href base blockName)"
  from assms(3) obtain i where i: "child_index ''body'' 0 (childNodes (document w)) = Some i"
    "document_body (document w) = Some [i]"
    by (auto simp: document_body_def split: option.splits)
  let ?t = "Element ''template'' (setAttribute ''id'' ?i tatts) tcs"
  from assms(1,2,5,6) True i(2) have w1: "p = Fulfilled ()" "document w1 = append_child [i] ?t (document w)"
    by (auto simp: loadTemplate_def Let_def template_selector_plain)
  have "document_querySelector (sel_template_id ?i) (append_child [i] ?t (document w)) \<noteq> None"
    by (rule select_after_append[OF i(1) assms(4)])
       (simp_all add: sel_template_id_def getAttribute_def setAttribute_def update_conv')
  with w1 assms(6) show ?thesis by (auto simp: loadTemplate_def Let_def template_selector_plain)
qed

text \<open>
  Claim C9, amended. For an identifier or an address that is read between the quotes of
  the selector as itself (no quote, backslash, line break or NUL in it): when the
  document holds a \<^verbatim>\<open>template\<close> element with the identifier derived from the block
  name, \<^verbatim>\<open>loadTemplate\<close> is fulfilled and leaves the page as it is: no request, no
  change of the document. The derived identifier is the block name itself when the name
  has no slash and no dot. When the head holds a link with the address, \<^verbatim>\<open>loadCSS\<close>
  is fulfilled and leaves the page as it is: no new element. Both loads are cached by
  what they leave in the document: after \<^verbatim>\<open>loadCSS\<close> has run on a page with a head,
  and after \<^verbatim>\<open>loadTemplate\<close> has fetched a template and added it to the body, the
  same call again is fulfilled at once and changes nothing.
\<close>

theorem cached_loads:
  "(css_string_plain (template_id (template_href base blockName)) \<and>
    document_querySelector (sel_template_id (template_id (template_href base blockName))) (document w)
      \<noteq> None \<longrightarrow>
    loadTemplate pf base blockName w = (Fulfilled (), w)) \<and>
   (CHR ''/'' \<notin> set blockName \<and> CHR ''.'' \<notin> set blockName \<and> css_string_plain blockName \<and>
    document_querySelector (sel_template_id blockName) (document w) \<noteq> None \<longrightarrow>
    loadTemplate pf base blockName w = (Fulfilled (), w)) \<and>
   (css_string_plain href \<and> document_querySelector (sel_head_link href) (document w) \<noteq> None \<longrightarrow>
    loadCSS pf href w = (Fulfilled (), w)) \<and>
   (css_string_plain href \<and> document_head (document w) \<noteq> None \<and>
    tagName (document w) \<noteq> ''template'' \<longrightarrow>
    loadCSS pf href (snd (loadCSS pf href w)) = (Fulfilled (), snd (loadCSS pf href w))) \<and>
   (css_string_plain (template_id (template_href base blockName)) \<and>
    fetch pf (template_href base blockName) = Response True (Some text) \<and>
    parseHTML pf (trim text) = Element ''template'' tatts tcs # rest \<and>
    document_body (document w) \<noteq> None \<and> tagName (document w) \<noteq> ''template'' \<longrightarrow>
    fst (loadTemplate pf base blockName w) = Fulfilled () \<and>
    loadTemplate pf base blockName (snd (loadTemplate pf base blockName w)) =
      (Fulfilled (), snd (loadTemplate pf base blockName w)))"
proof (intro conjI impI)
  assume "css_string_plain (template_id (template_href base blockName)) \<and>
    document_querySelector (sel_template_id (template_id (template_href base blockName))) (document w)
      \<noteq> None"
  then show "loadTemplate pf base blockName w = (Fulfilled (), w)"
    by (auto simp: loadTemplate_def Let_def template_selector_plain)
next
  assume "CHR ''/'' \<notin> set blockName \<and> CHR ''.'' \<notin> set blockName \<and> css_string_plain blockName \<and>
    document_querySelector (sel_template_id blockName) (document w) \<noteq> None"
  then show "loadTemplate pf base blockName w = (Fulfilled (), w)"
    by (auto simp: loadTemplate_def Let_def template_id_name template_selector_plain)
next
  assume "css_string_plain href \<and> document_querySelector (sel_head_link href) (document w) \<noteq> None"
  then show "loadCSS pf href w = (Fulfilled (), w)"
    by (auto simp: loadCSS_def head_link_selector_plain)
next
  assume "css_string_plain href \<and> document_head (document w) \<noteq> None \<and>
    tagName (document w) \<noteq> ''template''"
  then show "loadCSS pf href (snd (loadCSS pf href w)) = (Fulfilled (), snd (loadCSS pf href w))"
    using loadCSS_twice [where pf = pf and href = href and w = w, OF surjective_pairing] by simp
next
  assume h: "css_string_plain (template_id (template_href base blockName)) \<and>
    fetch pf (template_href base blockName) = Response True (Some text) \<and>
    parseHTML pf (trim text) = Element ''template'' tatts tcs # rest \<and>
    document_body (document w) \<noteq> None \<and> tagName (document w) \<noteq> ''template''"
  then have twice: "fst (loadTemplate pf base blockName w) = Fulfilled () \<and>
      loadTemplate pf base blockName (snd (loadTemplate pf base blockName w)) =
        (Fulfilled (), snd (loadTemplate pf base blockName w))"
    using loadTemplate_twice [where pf = pf and base = base and blockName = blockName and w = w,
            OF _ _ _ _ surjective_pairing]
    by simp
  from twice show "fst (loadTemplate pf base blockName w) = Fulfilled ()" by simp
  from twice show "loadTemplate pf base blockName (snd (loadTemplate pf base blockName w)) =
      (Fulfilled (), snd (loadTemplate pf base blockName w))" by simp
qed

theorem cached_loads_witness:
  "template_id (template_href [] ''aem-section-metadata'') = ''aem-section-metadata'' \<and>
   css_string_plain ''aem-section-metadata'' \<and>
   document_querySelector (sel_template_id ''aem-section-metadata'') template_page = Some [1, 1] \<and>
   loadTemplate example_platform [] ''aem-section-metadata'' (page_world template_page) =
     (Fulfilled (), page_world template_page) \<and>
   css_string_plain ''/styles/fonts.css'' \<and>
   document_querySelector (sel_head_link ''/styles/fonts.css'') template_page = Some [0, 0] \<and>
   loadCSS example_platform ''/styles/fonts.css'' (page_world template_page) =
     (Fulfilled (), page_world template_page) \<and>
   css_string_plain ''/styles/styles.css'' \<and>
   document_querySelector (sel_head_link ''/styles/styles.css'') template_page = None \<and>
   snd (loadCSS example_platform ''/styles/styles.css'' (page_world template_page)) \<noteq> page_world template_page \<and>
   loadCSS example_platform ''/styles/styles.css''
       (snd (loadCSS example_platform ''/styles/styles.css'' (page_world template_page))) =
     (Fulfilled (), snd (loadCSS example_platform ''/styles/styles.css'' (page_world template_page))) \<and>
   fetch example_platform (template_href [] ''aem-hero'') = Response True (Some ''<template></template>'') \<and>
   events (snd (loadTemplate example_platform [] ''aem-hero'' (page_world template_page))) =
     [Fetch ''/blocks/aem-hero/aem-hero.html''] \<and>
   loadTemplate example_platform [] ''aem-hero''
       (snd (loadTemplate example_platform [] ''aem-hero'' (page_world template_page))) =
     (Fulfilled (), snd (loadTemplate example_platform [] ''aem-hero'' (page_world template_page)))"
proof -
  have i: "template_id (template_href [] ''aem-section-metadata'') = ''aem-section-metadata''"
    "template_id (template_href [] ''aem-hero'') = ''aem-hero''"
    by code_simp+
  have p: "css_string_plain ''aem-section-metadata''" "css_string_plain ''/styles/fonts.css''"
    "css_string_plain ''/styles/styles.css''" "css_string_plain ''aem-hero''"
    by code_simp+
  have t: "document_querySelector (sel_template_id ''aem-section-metadata'') template_page = Some [1, 1]"
    by code_simp
  have l: "document_querySelector (sel_head_link ''/styles/fonts.css'') template_page = Some [0, 0]"
    "document_querySelector (sel_head_link ''/styles/styles.css'') template_page = None"
    by code_simp+
  have d: "document (page_world template_page) = template_page"
    by (simp add: page_world_def)
  have n: "snd (loadCSS example_platform ''/styles/styles.css'' (page_world template_page)) \<noteq> page_world template_page"
    by code_simp
  have f: "fetch example_platform (template_href [] ''aem-hero'') = Response True (Some ''<template></template>'')"
    "parseHTML example_platform (trim ''<template></template>'') = Element ''template'' [] [] # []"
    by code_simp+
  have e: "events (snd (loadTemplate example_platform [] ''aem-hero'' (page_world template_page))) =
     [Fetch ''/blocks/aem-hero/aem-hero.html'']"
    by code_simp
  have b: "document_head template_page \<noteq> None" "document_body template_page \<noteq> None"
    "tagName template_page \<noteq> ''template''"
    by code_simp+
  from cached_loads [of "[]" "''aem-section-metadata''" "page_world template_page" example_platform
                        "''/styles/fonts.css''"]
       cached_loads [of "[]" "''aem-hero''" "page_world template_page" example_platform
                        "''/styles/styles.css''" "''<template></template>''" "[]" "[]" "[]"]
       i p t l d n f e b
  show ?thesis by simp
qed

text \<open>
  Claim C9 as stated fails for the block name \<^verbatim>\<open>a"b\<close>: the document holds a template
  with the derived identifier, and \<^verbatim>\<open>querySelector\<close> throws a syntax error, so the
  promise is rejected. For the block name \<^verbatim>\<open>a\b\<close> the selector asks for another
  identifier, the template that is there is not found and the request is sent. An
  address with a quote makes \<^verbatim>\<open>loadCSS\<close> reject in the same way.
\<close>

theorem cached_loads_quote_counterexample:
  "template_id (template_href [] quote_name) = quote_name \<and>
   document_querySelector (sel_template_id quote_name) quote_page = Some [1, 0] \<and>
   loadTemplate example_platform [] quote_name (page_world quote_page) =
     (Rejected (Some SyntaxError), page_world quote_page) \<and>
   template_id (template_href [] backslash_name) = backslash_name \<and>
   document_querySelector (sel_template_id backslash_name) quote_page = Some [1, 1] \<and>
   loadTemplate example_platform [] backslash_name (page_world quote_page) =
     (Rejected None,
      \<lparr>document = quote_page, registry = [],
         events = [Fetch (template_href [] backslash_name)]\<rparr>) \<and>
   document_querySelector (sel_head_link quote_name) quote_page = Some [0, 0] \<and>
   loadCSS example_platform quote_name (page_world quote_page) =
     (Rejected (Some SyntaxError), page_world quote_page)"
  by code_simp

end
